theory Spec2Isabelle
  imports Main "HOL-Library.Sublist"
begin

unbundle bit_operations_syntax

section \<open>Python values\<close>

text \<open>
  The upload broker of \<^verbatim>\<open>src/backend/upload.py\<close> works on decoded JSON: dictionaries,
  lists, strings, integers, booleans and \<^verbatim>\<open>None\<close>. A dictionary keeps its insertion order
  and is an association list here. JSON numbers with a fraction (Python floats) are not
  part of the model. A Python \<^verbatim>\<open>str\<close> is a \<open>string\<close>: one \<open>char\<close> per code point, for code
  points up to 255.
\<close>

datatype json =
    JNull
  | JBool bool
  | JInt int
  | JStr string
  | JList "json list"
  | JObj "(string \<times> json) list"

text \<open>The exceptions the module can meet; every \<^verbatim>\<open>raise\<close> is a value \<open>Inl e\<close>.\<close>

datatype exn =
    AttributeError
  | TypeError
  | ClientError string
  | OtherError

text \<open>\<^verbatim>\<open>d.get(k, default)\<close>: an attribute error on anything that is not a dictionary.\<close>

fun dict_get :: "json \<Rightarrow> string \<Rightarrow> json \<Rightarrow> exn + json" where
  "dict_get (JObj kvs) k d = Inr (case map_of kvs k of None \<Rightarrow> d | Some v \<Rightarrow> v)"
| "dict_get _ k d = Inl AttributeError"

text \<open>\<^verbatim>\<open>x > n\<close> for an integer \<open>n\<close>: defined on integers and booleans, a type error elsewhere.\<close>

fun py_gt :: "json \<Rightarrow> int \<Rightarrow> exn + bool" where
  "py_gt (JInt x) n = Inr (x > n)"
| "py_gt (JBool b) n = Inr ((if b then 1 else 0) > n)"
| "py_gt _ n = Inl TypeError"

text \<open>Truthiness, as \<^verbatim>\<open>if x:\<close> and \<^verbatim>\<open>not x\<close> read a value.\<close>

fun truthy :: "json \<Rightarrow> bool" where
  "truthy JNull = False"
| "truthy (JBool b) = b"
| "truthy (JInt n) = (n \<noteq> 0)"
| "truthy (JStr s) = (s \<noteq> [])"
| "truthy (JList xs) = (xs \<noteq> [])"
| "truthy (JObj kvs) = (kvs \<noteq> [])"

text \<open>
  Whether a value holds a number. The table's client reads every number of an item back
  as a \<^verbatim>\<open>Decimal\<close>, which \<^verbatim>\<open>json.dumps\<close> refuses with a type error; booleans, strings,
  lists and dictionaries come back as they were written.
\<close>

primrec has_number :: "json \<Rightarrow> bool" where
  "has_number JNull = False"
| "has_number (JBool b) = False"
| "has_number (JInt n) = True"
| "has_number (JStr s) = False"
| "has_number (JList xs) = list_ex (\<lambda>b. b) (map has_number xs)"
| "has_number (JObj kvs) = list_ex (\<lambda>b. b) (map snd (map (map_prod id has_number) kvs))"

text \<open>\<^verbatim>\<open>str.lower()\<close> on code points up to 255: the ASCII capitals and the Latin-1 capitals
  (\<open>0xC0\<close> to \<open>0xDE\<close> without the multiplication sign \<open>0xD7\<close>) move up by 32.\<close>

definition lower_char :: "char \<Rightarrow> char" where
  "lower_char c =
     (let n = (of_char c :: nat)
      in if (65 \<le> n \<and> n \<le> 90) \<or> (192 \<le> n \<and> n \<le> 222 \<and> n \<noteq> 215)
         then char_of (n + 32) else c)"

definition lower :: "string \<Rightarrow> string" where
  "lower s = map lower_char s"

text \<open>\<^verbatim>\<open>str.rfind(c)\<close>: the index of the last occurrence, \<open>-1\<close> when there is none.\<close>

primrec rfind_from :: "char \<Rightarrow> string \<Rightarrow> int \<Rightarrow> int \<Rightarrow> int" where
  "rfind_from c [] i found = found"
| "rfind_from c (x # xs) i found = rfind_from c xs (i + 1) (if x = c then i else found)"

definition rfind :: "string \<Rightarrow> char \<Rightarrow> int" where
  "rfind p c = rfind_from c p 0 (- 1)"

text \<open>
  \<^verbatim>\<open>os.path.splitext\<close> of the POSIX path module: the extension starts at the last dot,
  when that dot comes after the last slash and some character between the start of the
  file name and the dot is not a dot. The loop over the leading dots is \<open>splitext_scan\<close>.
\<close>

function splitext_scan :: "string \<Rightarrow> int \<Rightarrow> int \<Rightarrow> (string \<times> string) option" where
  "splitext_scan p dotIndex filenameIndex =
     (if filenameIndex < dotIndex then
        (if take 1 (drop (nat filenameIndex) p) \<noteq> ''.''
         then Some (take (nat dotIndex) p, drop (nat dotIndex) p)
         else splitext_scan p dotIndex (filenameIndex + 1))
      else None)"
  by pat_completeness auto
termination
  by (relation "measure (\<lambda>(p, dotIndex, filenameIndex). nat (dotIndex - filenameIndex))") auto

definition splitext :: "string \<Rightarrow> string \<times> string" where
  "splitext p =
     (let sepIndex = rfind p CHR ''/'';
          dotIndex = rfind p CHR ''.''
      in case (if dotIndex > sepIndex then splitext_scan p dotIndex (sepIndex + 1) else None) of
           Some r \<Rightarrow> r
         | None \<Rightarrow> (p, []))"

text \<open>Decimal rendering of an integer, as an f-string formats it.\<close>

fun str_nat :: "nat \<Rightarrow> string" where
  "str_nat n =
     (if n < 10 then [''0123456789'' ! n]
      else str_nat (n div 10) @ [''0123456789'' ! (n mod 10)])"

definition str_int :: "int \<Rightarrow> string" where
  "str_int i = (if i < 0 then CHR ''-'' # str_nat (nat (- i)) else str_nat (nat i))"

section \<open>File validation\<close>

definition MAX_FILE_SIZE :: int where
  "MAX_FILE_SIZE = 100 * 1024 * 1024"

definition ALLOWED_EXTENSIONS :: "(string \<times> string list) list" where
  "ALLOWED_EXTENSIONS =
     [(''image'', [''.jpg'', ''.jpeg'', ''.png'', ''.gif'', ''.bmp'', ''.webp'']),
      (''document'', [''.pdf'', ''.doc'', ''.docx'', ''.txt'', ''.rtf'', ''.odt'']),
      (''video'', [''.mp4'', ''.avi'', ''.mov'', ''.wmv'', ''.flv'', ''.webm'']),
      (''audio'', [''.mp3'', ''.wav'', ''.flac'', ''.aac'', ''.ogg''])]"

text \<open>The two messages of \<^verbatim>\<open>validate_file\<close> that are f-strings, and the fixed one.\<close>

definition size_error :: string where
  "size_error = ''File size exceeds maximum limit of '' @ str_int MAX_FILE_SIZE @ '' bytes''"

definition type_error :: "string \<Rightarrow> string" where
  "type_error file_extension = ''File type '' @ file_extension @ '' is not allowed''"

definition name_error :: string where
  "name_error = ''Invalid filename''"

text \<open>
  \<^verbatim>\<open>validate_file(file_info)\<close>. The list \<open>errors\<close> grows by \<^verbatim>\<open>append\<close>; the loop over
  \<^verbatim>\<open>ALLOWED_EXTENSIONS.values()\<close> extends \<open>allowed_extensions\<close>. \<^verbatim>\<open>os.path.splitext\<close> raises a
  type error on a name that is not a string.
\<close>

definition validate_file :: "json \<Rightarrow> exn + string list" where
  "validate_file file_info =
     (let errors = [] in
      case dict_get file_info ''size'' (JInt 0) of Inl e \<Rightarrow> Inl e | Inr size_v \<Rightarrow>
      case py_gt size_v MAX_FILE_SIZE of Inl e \<Rightarrow> Inl e | Inr too_big \<Rightarrow>
      let errors = (if too_big then errors @ [size_error] else errors) in
      case dict_get file_info ''name'' (JStr []) of Inl e \<Rightarrow> Inl e | Inr filename_v \<Rightarrow>
      case filename_v of
        JStr filename \<Rightarrow>
          let file_extension = lower (snd (splitext filename));
              allowed_extensions = foldl (\<lambda>acc extensions. acc @ extensions) []
                                     (map snd ALLOWED_EXTENSIONS);
              errors = (if file_extension \<notin> set allowed_extensions
                        then errors @ [type_error file_extension] else errors);
              errors = (if filename = [] \<or> length filename > 255
                        then errors @ [name_error] else errors)
          in Inr errors
      | _ \<Rightarrow> Inl TypeError)"

section \<open>Responses\<close>

text \<open>\<^verbatim>\<open>sep.join(parts)\<close>.\<close>

fun join :: "string \<Rightarrow> string list \<Rightarrow> string" where
  "join sep [] = []"
| "join sep [x] = x"
| "join sep (x # y # ys) = x @ sep @ join sep (y # ys)"

text \<open>
  \<^verbatim>\<open>json.dumps\<close> with its defaults: separators \<^verbatim>\<open>", "\<close> and \<^verbatim>\<open>": "\<close>, and every character
  outside the printable ASCII range escaped. \<open>CHR 0x22\<close> is the double quote and
  \<open>CHR 0x5C\<close> the backslash.
\<close>

definition dumps_char :: "char \<Rightarrow> string" where
  "dumps_char c =
     (let n = (of_char c :: nat) in
      if c = CHR 0x22 then [CHR 0x5C, CHR 0x22]
      else if c = CHR 0x5C then [CHR 0x5C, CHR 0x5C]
      else if n = 10 then [CHR 0x5C, CHR ''n'']
      else if n = 13 then [CHR 0x5C, CHR ''r'']
      else if n = 9 then [CHR 0x5C, CHR ''t'']
      else if n = 8 then [CHR 0x5C, CHR ''b'']
      else if n = 12 then [CHR 0x5C, CHR ''f'']
      else if 32 \<le> n \<and> n \<le> 126 then [c]
      else [CHR 0x5C, CHR ''u'', CHR ''0'', CHR ''0'',
            ''0123456789abcdef'' ! (n div 16), ''0123456789abcdef'' ! (n mod 16)])"

definition dumps_str :: "string \<Rightarrow> string" where
  "dumps_str s = [CHR 0x22] @ concat (map dumps_char s) @ [CHR 0x22]"

primrec json_dumps :: "json \<Rightarrow> string" where
  "json_dumps JNull = ''null''"
| "json_dumps (JBool b) = (if b then ''true'' else ''false'')"
| "json_dumps (JInt i) = str_int i"
| "json_dumps (JStr s) = dumps_str s"
| "json_dumps (JList xs) = ''['' @ join '', '' (map json_dumps xs) @ '']''"
| "json_dumps (JObj kvs) =
     ''{'' @ join '', '' (map (\<lambda>kv. dumps_str (fst kv) @ '': '' @ snd kv)
                              (map (map_prod id json_dumps) kvs)) @ ''}''"

record response =
  statusCode :: int
  resp_headers :: "(string \<times> string) list"
  resp_body :: string

definition create_response :: "int \<Rightarrow> json \<Rightarrow> response" where
  "create_response status_code body =
     \<lparr>statusCode = status_code,
      resp_headers =
        [(''Content-Type'', ''application/json''),
         (''Access-Control-Allow-Origin'', ''*''),
         (''Access-Control-Allow-Headers'', ''Content-Type,Authorization''),
         (''Access-Control-Allow-Methods'', ''GET,POST,PUT,DELETE,OPTIONS'')],
      resp_body = json_dumps body\<rparr>"

section \<open>The collaborators and the state\<close>

text \<open>
  One record of the files table. The table's key is the pair of \<open>file_id\<close> and
  \<open>user_id\<close>, both attributes of the item itself.
\<close>

record item =
  item_file_id :: string
  item_user_id :: string
  item_filename :: string
  item_file_type :: string
  item_file_size :: json
  item_content_type :: json
  item_s3_key :: string
  item_title :: json
  item_description :: json
  item_tags :: json
  item_upload_date :: string
  item_last_modified :: string
  item_version :: int
  item_status :: string

text \<open>The calls that leave the process: the identity provider, the object store's
  URL signer and the files table.\<close>

datatype call =
    CognitoGetUser string
  | S3Presign string string
  | DynamoPut string string
  | DynamoUpdate json string
  | DynamoGet json string

text \<open>The state outside the handler: the files table, and the log of the calls made.\<close>

record world =
  files :: "item list"
  calls :: "call list"

record cognito_user =
  Username :: string
  UserAttributes :: "(string \<times> string) list"

text \<open>
  What the handler cannot decide by itself, for one request: the libraries it calls and
  the faults of its collaborators.
  \<^item> \<open>jwt_sub token\<close>: the \<^verbatim>\<open>sub\<close> claim that \<^verbatim>\<open>jwt.get_unverified_claims\<close> reads from a
    token, or the exception it raises. A token of the identity provider always carries
    the claim, a string.
  \<^item> \<open>cognito_get_user token\<close>: the answer of \<^verbatim>\<open>cognito_idp.get_user\<close>.
  \<^item> \<open>presigned_url operation key content_type expires\<close>: the answer of
    \<^verbatim>\<open>s3_client.generate_presigned_url\<close>.
  \<^item> \<open>json_loads s\<close>: \<^verbatim>\<open>json.loads\<close>, \<open>None\<close> for a \<^verbatim>\<open>JSONDecodeError\<close>.
  \<^item> \<open>put_fault\<close>, \<open>update_fault\<close>, \<open>get_fault\<close>: the exception with which the table
    refuses a call, if it does.
  \<^item> \<open>clock k\<close>: the \<open>k\<close>-th reading of \<^verbatim>\<open>datetime.now(timezone.utc).isoformat()\<close> during
    the request.
\<close>

record env =
  jwt_sub :: "string \<Rightarrow> exn + string"
  cognito_get_user :: "string \<Rightarrow> exn + cognito_user"
  presigned_url :: "string \<Rightarrow> string \<Rightarrow> string option \<Rightarrow> int \<Rightarrow> exn + string"
  json_loads :: "string \<Rightarrow> json option"
  put_fault :: "exn option"
  update_fault :: "exn option"
  get_fault :: "exn option"
  clock :: "nat \<Rightarrow> string"

definition log_call :: "call \<Rightarrow> world \<Rightarrow> world" where
  "log_call c w = w\<lparr>calls := calls w @ [c]\<rparr>"

subsection \<open>The files table\<close>

definition has_key :: "string \<Rightarrow> string \<Rightarrow> item \<Rightarrow> bool" where
  "has_key fid uid it = (item_file_id it = fid \<and> item_user_id it = uid)"

text \<open>\<^verbatim>\<open>table.get_item(Key=...)\<close> without its faults: the item at the key, if any.\<close>

definition lookup :: "item list \<Rightarrow> string \<Rightarrow> string \<Rightarrow> item option" where
  "lookup tbl fid uid = find (has_key fid uid) tbl"

text \<open>
  \<^verbatim>\<open>table.put_item(Item=item)\<close>: the call carries no condition expression, so the item
  takes the place of any item with the same key. A fault leaves the table as it was.
\<close>

definition put_item :: "env \<Rightarrow> world \<Rightarrow> item \<Rightarrow> (exn + unit) \<times> world" where
  "put_item e w it =
     (let w' = log_call (DynamoPut (item_file_id it) (item_user_id it)) w in
      case put_fault e of
        Some x \<Rightarrow> (Inl x, w')
      | None \<Rightarrow>
          (Inr (), w'\<lparr>files :=
             it # filter (\<lambda>x. \<not> has_key (item_file_id it) (item_user_id it) x) (files w')\<rparr>))"

text \<open>
  \<^verbatim>\<open>table.update_item\<close> as \<^verbatim>\<open>handle_complete_upload\<close> calls it: it sets \<^verbatim>\<open>status\<close> and
  \<^verbatim>\<open>last_modified\<close> under the condition
  \<^verbatim>\<open>attribute_exists(file_id) AND user_id = :user_id\<close>. The key attributes are strings in
  the table, so a key of another type is a validation error.
\<close>

definition update_item :: "env \<Rightarrow> world \<Rightarrow> json \<Rightarrow> string \<Rightarrow> string \<Rightarrow> string
    \<Rightarrow> (exn + unit) \<times> world" where
  "update_item e w file_id user_id new_status now =
     (let w' = log_call (DynamoUpdate file_id user_id) w in
      case update_fault e of
        Some x \<Rightarrow> (Inl x, w')
      | None \<Rightarrow>
          (case file_id of
             JStr fid \<Rightarrow>
               (case lookup (files w') fid user_id of
                  None \<Rightarrow> (Inl (ClientError ''ConditionalCheckFailedException''), w')
                | Some it \<Rightarrow>
                    (if item_user_id it = user_id then
                       (Inr (), w'\<lparr>files :=
                          map (\<lambda>x. if has_key fid user_id x
                                    then x\<lparr>item_status := new_status, item_last_modified := now\<rparr>
                                    else x) (files w')\<rparr>)
                     else (Inl (ClientError ''ConditionalCheckFailedException''), w')))
           | _ \<Rightarrow> (Inl (ClientError ''ValidationException''), w')))"

text \<open>The file id as the f-string of the object key prints it. The table answers a
  \<^verbatim>\<open>get_item\<close> with an item for a string key only, so no other case is read.\<close>

fun key_text :: "json \<Rightarrow> string" where
  "key_text (JStr s) = s"
| "key_text other = []"

definition get_item :: "env \<Rightarrow> world \<Rightarrow> json \<Rightarrow> string \<Rightarrow> (exn + item option) \<times> world" where
  "get_item e w file_id user_id =
     (let w' = log_call (DynamoGet file_id user_id) w in
      case get_fault e of
        Some x \<Rightarrow> (Inl x, w')
      | None \<Rightarrow>
          (case file_id of
             JStr fid \<Rightarrow> (Inr (lookup (files w') fid user_id), w')
           | _ \<Rightarrow> (Inl (ClientError ''ValidationException''), w')))"

section \<open>The MD5 digest\<close>

text \<open>
  \<^verbatim>\<open>hashlib.md5(s.encode()).hexdigest()\<close>: the UTF-8 encoding of the string (two bytes for a
  code point from 128 to 255), and MD5 as RFC 1321 defines it. Bytes and 32-bit words are
  natural numbers; \<open>u32\<close> is the wrap-around of the 32-bit addition, \<open>not32\<close> the complement
  and \<open>rotl32\<close> the left rotation of a 32-bit word. \<open>md5_K\<close> are the sine constants,
  \<open>md5_s\<close> the shift amounts of the 64 steps; \<open>md5_rounds\<close> lists the steps, four rounds of
  sixteen.
\<close>

definition utf8_char :: "char \<Rightarrow> nat list" where
  "utf8_char c =
     (let n = (of_char c :: nat)
      in if n < 128 then [n] else [192 + n div 64, 128 + n mod 64])"

definition utf8_encode :: "string \<Rightarrow> nat list" where
  "utf8_encode s = concat (map utf8_char s)"

definition md5_K :: "nat list" where
  "md5_K =
    [0xd76aa478, 0xe8c7b756, 0x242070db, 0xc1bdceee, 0xf57c0faf, 0x4787c62a, 0xa8304613, 0xfd469501,
     0x698098d8, 0x8b44f7af, 0xffff5bb1, 0x895cd7be, 0x6b901122, 0xfd987193, 0xa679438e, 0x49b40821,
     0xf61e2562, 0xc040b340, 0x265e5a51, 0xe9b6c7aa, 0xd62f105d, 0x02441453, 0xd8a1e681, 0xe7d3fbc8,
     0x21e1cde6, 0xc33707d6, 0xf4d50d87, 0x455a14ed, 0xa9e3e905, 0xfcefa3f8, 0x676f02d9, 0x8d2a4c8a,
     0xfffa3942, 0x8771f681, 0x6d9d6122, 0xfde5380c, 0xa4beea44, 0x4bdecfa9, 0xf6bb4b60, 0xbebfbc70,
     0x289b7ec6, 0xeaa127fa, 0xd4ef3085, 0x04881d05, 0xd9d4d039, 0xe6db99e5, 0x1fa27cf8, 0xc4ac5665,
     0xf4292244, 0x432aff97, 0xab9423a7, 0xfc93a039, 0x655b59c3, 0x8f0ccc92, 0xffeff47d, 0x85845dd1,
     0x6fa87e4f, 0xfe2ce6e0, 0xa3014314, 0x4e0811a1, 0xf7537e82, 0xbd3af235, 0x2ad7d2bb, 0xeb86d391]"

definition md5_s :: "nat list" where
  "md5_s =
    [7, 12, 17, 22, 7, 12, 17, 22, 7, 12, 17, 22, 7, 12, 17, 22,
     5, 9, 14, 20, 5, 9, 14, 20, 5, 9, 14, 20, 5, 9, 14, 20,
     4, 11, 16, 23, 4, 11, 16, 23, 4, 11, 16, 23, 4, 11, 16, 23,
     6, 10, 15, 21, 6, 10, 15, 21, 6, 10, 15, 21, 6, 10, 15, 21]"

definition u32 :: "nat \<Rightarrow> nat" where
  "u32 x = x mod 4294967296"

definition not32 :: "nat \<Rightarrow> nat" where
  "not32 x = 4294967295 - x"

definition rotl32 :: "nat \<Rightarrow> nat \<Rightarrow> nat" where
  "rotl32 x c = u32 (x * 2 ^ c) + x div 2 ^ (32 - c)"

type_synonym md5_state = "nat \<times> nat \<times> nat \<times> nat"

fun md5_step :: "nat list \<Rightarrow> nat \<Rightarrow> md5_state \<Rightarrow> md5_state" where
  "md5_step M i (a, b, c, d) =
     (let f = (if i < 16 then (b AND c) OR (not32 b AND d)
               else if i < 32 then (d AND b) OR (not32 d AND c)
               else if i < 48 then b XOR c XOR d
               else c XOR (b OR not32 d));
          g = (if i < 16 then i
               else if i < 32 then (5 * i + 1) mod 16
               else if i < 48 then (3 * i + 5) mod 16
               else (7 * i) mod 16);
          f' = u32 (f + a + md5_K ! i + M ! g)
      in (d, u32 (b + rotl32 f' (md5_s ! i)), b, c))"

definition md5_rounds :: "nat list" where
  "md5_rounds =
     [0, 1, 2, 3, 4, 5, 6, 7, 8, 9, 10, 11, 12, 13, 14, 15]
     @ [16, 17, 18, 19, 20, 21, 22, 23, 24, 25, 26, 27, 28, 29, 30, 31]
     @ [32, 33, 34, 35, 36, 37, 38, 39, 40, 41, 42, 43, 44, 45, 46, 47]
     @ [48, 49, 50, 51, 52, 53, 54, 55, 56, 57, 58, 59, 60, 61, 62, 63]"

definition md5_chunk :: "md5_state \<Rightarrow> nat list \<Rightarrow> md5_state" where
  "md5_chunk st M =
     (case st of (a0, b0, c0, d0) \<Rightarrow>
        (case fold (md5_step M) md5_rounds st of (a, b, c, d) \<Rightarrow>
           (u32 (a0 + a), u32 (b0 + b), u32 (c0 + c), u32 (d0 + d))))"

fun le_bytes :: "nat \<Rightarrow> nat \<Rightarrow> nat list" where
  "le_bytes 0 n = []"
| "le_bytes (Suc k) n = (n mod 256) # le_bytes k (n div 256)"

definition md5_pad :: "nat list \<Rightarrow> nat list" where
  "md5_pad msg =
     msg @ [128] @ replicate ((119 - length msg mod 64) mod 64) 0 @ le_bytes 8 (8 * length msg)"

fun le_word :: "nat list \<Rightarrow> nat" where
  "le_word [] = 0"
| "le_word (b # bs) = b + 256 * le_word bs"

fun chunks :: "nat \<Rightarrow> nat \<Rightarrow> 'a list \<Rightarrow> 'a list list" where
  "chunks 0 n xs = []"
| "chunks (Suc k) n xs = take n xs # chunks k n (drop n xs)"

definition md5_words :: "nat list \<Rightarrow> nat list" where
  "md5_words block = map le_word (chunks 16 4 block)"

definition md5_digest :: "nat list \<Rightarrow> nat list" where
  "md5_digest msg =
     (let p = md5_pad msg;
          blocks = chunks (length p div 64) 64 p
      in case fold (\<lambda>blk st. md5_chunk st (md5_words blk)) blocks
                (0x67452301, 0xefcdab89, 0x98badcfe, 0x10325476)
         of (a, b, c, d) \<Rightarrow> concat (map (le_bytes 4) [a, b, c, d]))"

definition hex_digit :: "nat \<Rightarrow> char" where
  "hex_digit n = ''0123456789abcdef'' ! n"

definition hexdigest :: "nat list \<Rightarrow> string" where
  "hexdigest bs = concat (map (\<lambda>b. [hex_digit (b div 16), hex_digit (b mod 16)]) bs)"

definition md5_hexdigest :: "string \<Rightarrow> string" where
  "md5_hexdigest s = hexdigest (md5_digest (utf8_encode s))"

section \<open>The upload module\<close>

record user_info =
  ui_user_id :: string
  ui_username :: string
  ui_attributes :: "string \<rightharpoonup> string"

text \<open>\<^verbatim>\<open>verify_token(token)\<close>: every exception of the two steps ends in \<^verbatim>\<open>None\<close>.\<close>

definition verify_token :: "env \<Rightarrow> world \<Rightarrow> string \<Rightarrow> user_info option \<times> world" where
  "verify_token e w token =
     (case jwt_sub e token of
        Inl x \<Rightarrow> (None, w)
      | Inr sub \<Rightarrow>
          (let w' = log_call (CognitoGetUser token) w in
           case cognito_get_user e token of
             Inl x \<Rightarrow> (None, w')
           | Inr r \<Rightarrow>
               (Some \<lparr>ui_user_id = sub, ui_username = Username r,
                      ui_attributes = map_of (rev (UserAttributes r))\<rparr>, w')))"

text \<open>
  \<^verbatim>\<open>generate_file_id(user_id, filename)\<close>, with the clock reading it uses as an argument.
\<close>

definition generate_file_id :: "string \<Rightarrow> string \<Rightarrow> string \<Rightarrow> string" where
  "generate_file_id user_id filename timestamp =
     (let file_hash = md5_hexdigest (user_id @ filename @ timestamp)
      in user_id @ ''_'' @ take 8 file_hash)"

text \<open>The first category of \<^verbatim>\<open>ALLOWED_EXTENSIONS\<close> that lists the extension: the loops
  of \<^verbatim>\<open>create_signed_url\<close> and \<^verbatim>\<open>store_file_metadata\<close> stop there.\<close>

definition category_of :: "string \<Rightarrow> string option" where
  "category_of file_extension =
     map_option fst (find (\<lambda>entry. file_extension \<in> set (snd entry)) ALLOWED_EXTENSIONS)"

definition s3_object_key :: "string \<Rightarrow> string \<Rightarrow> string \<Rightarrow> string" where
  "s3_object_key user_id file_id filename =
     ''uploads/'' @ user_id @ ''/'' @ file_id @ ''/'' @ filename"

definition create_signed_url :: "env \<Rightarrow> world \<Rightarrow> string \<Rightarrow> string \<Rightarrow> string \<Rightarrow> string
    \<Rightarrow> string option \<times> world" where
  "create_signed_url e w file_id filename user_id operation =
     (let file_extension = lower (snd (splitext filename));
          content_type =
            (case category_of file_extension of
               None \<Rightarrow> ''application/octet-stream''
             | Some file_type \<Rightarrow>
                 if file_type = ''image'' then ''image/'' @ drop 1 file_extension
                 else if file_type = ''document'' then
                   (if file_extension = ''.pdf'' then ''application/pdf''
                    else ''application/msword'')
                 else if file_type = ''video'' then ''video/'' @ drop 1 file_extension
                 else if file_type = ''audio'' then ''audio/'' @ drop 1 file_extension
                 else ''application/octet-stream'');
          op = (if operation = ''put_object'' then ''put_object'' else ''get_object'');
          w' = log_call (S3Presign op (s3_object_key user_id file_id filename)) w;
          answer =
            (if operation = ''put_object''
             then presigned_url e ''put_object'' (s3_object_key user_id file_id filename)
                    (Some content_type) 3600
             else presigned_url e ''get_object'' (s3_object_key user_id file_id filename)
                    None 3600)
      in case answer of Inl x \<Rightarrow> (None, w') | Inr url \<Rightarrow> (Some url, w'))"

text \<open>
  \<^verbatim>\<open>store_file_metadata\<close>. The values of the item are computed in the order of the
  dictionary display; an exception of any of them, or of \<^verbatim>\<open>put_item\<close>, ends in \<^verbatim>\<open>False\<close>.
  The two clock readings are the second and the third of the request: the first is the
  one of \<^verbatim>\<open>generate_file_id\<close>.
\<close>

definition store_file_metadata :: "env \<Rightarrow> world \<Rightarrow> string \<Rightarrow> string \<Rightarrow> string \<Rightarrow> json \<Rightarrow> json
    \<Rightarrow> bool \<times> world" where
  "store_file_metadata e w file_id user_id filename file_info metadata =
     (let file_extension = lower (snd (splitext filename));
          file_type = (case category_of file_extension of None \<Rightarrow> ''other'' | Some t \<Rightarrow> t)
      in
      case dict_get file_info ''size'' (JInt 0) of Inl x \<Rightarrow> (False, w) | Inr file_size \<Rightarrow>
      case dict_get file_info ''type'' (JStr ''application/octet-stream'') of
        Inl x \<Rightarrow> (False, w) | Inr content_type \<Rightarrow>
      case dict_get metadata ''title'' (JStr filename) of Inl x \<Rightarrow> (False, w) | Inr title \<Rightarrow>
      case dict_get metadata ''description'' (JStr []) of Inl x \<Rightarrow> (False, w) | Inr description \<Rightarrow>
      case dict_get metadata ''tags'' (JList []) of Inl x \<Rightarrow> (False, w) | Inr tags \<Rightarrow>
      let it = \<lparr>item_file_id = file_id,
                 item_user_id = user_id,
                 item_filename = filename,
                 item_file_type = file_type,
                 item_file_size = file_size,
                 item_content_type = content_type,
                 item_s3_key = s3_object_key user_id file_id filename,
                 item_title = title,
                 item_description = description,
                 item_tags = tags,
                 item_upload_date = clock e 1,
                 item_last_modified = clock e 2,
                 item_version = 1,
                 item_status = ''uploading''\<rparr>
      in case put_item e w it of
           (Inl x, w') \<Rightarrow> (False, w')
         | (Inr u, w') \<Rightarrow> (True, w'))"

text \<open>The three operations. An exception that leaves one of them is a value \<open>Inl\<close>; the
  state reached so far stays. In \<open>handle_get_download_url\<close> the answer is built from the
  item as the table's client read it: a number among its values makes \<^verbatim>\<open>json.dumps\<close> raise
  inside the \<^verbatim>\<open>try\<close>, which ends in the 500 answer of its \<^verbatim>\<open>except Exception\<close>.\<close>

definition handle_get_upload_url :: "env \<Rightarrow> world \<Rightarrow> json \<Rightarrow> string
    \<Rightarrow> (exn + response) \<times> world" where
  "handle_get_upload_url e w body user_id =
     (case dict_get body ''file_info'' (JObj []) of Inl x \<Rightarrow> (Inl x, w) | Inr file_info \<Rightarrow>
      case dict_get body ''metadata'' (JObj []) of Inl x \<Rightarrow> (Inl x, w) | Inr metadata \<Rightarrow>
      case validate_file file_info of Inl x \<Rightarrow> (Inl x, w) | Inr validation_errors \<Rightarrow>
      if validation_errors \<noteq> [] then
        (Inr (create_response 400
           (JObj [(''error'', JStr ''File validation failed''),
                  (''details'', JList (map JStr validation_errors))])), w)
      else
      case dict_get file_info ''name'' (JStr []) of
        Inr (JStr filename) \<Rightarrow>
          (let file_id = generate_file_id user_id filename (clock e 0) in
           case create_signed_url e w file_id filename user_id ''put_object'' of
             (None, w1) \<Rightarrow>
               (Inr (create_response 500 (JObj [(''error'', JStr ''Failed to generate upload URL'')])), w1)
           | (Some upload_url, w1) \<Rightarrow>
               if upload_url = [] then
                 (Inr (create_response 500
                    (JObj [(''error'', JStr ''Failed to generate upload URL'')])), w1)
               else
               (case store_file_metadata e w1 file_id user_id filename file_info metadata of
                  (False, w2) \<Rightarrow>
                    (Inr (create_response 500
                       (JObj [(''error'', JStr ''Failed to store file metadata'')])), w2)
                | (True, w2) \<Rightarrow>
                    (Inr (create_response 200
                       (JObj [(''upload_url'', JStr upload_url),
                              (''file_id'', JStr file_id),
                              (''expires_in'', JInt 3600)])), w2)))
      | Inr other \<Rightarrow> (Inl TypeError, w)
      | Inl x \<Rightarrow> (Inl x, w))"

definition handle_complete_upload :: "env \<Rightarrow> world \<Rightarrow> json \<Rightarrow> string
    \<Rightarrow> (exn + response) \<times> world" where
  "handle_complete_upload e w body user_id =
     (case dict_get body ''file_id'' JNull of Inl x \<Rightarrow> (Inl x, w) | Inr file_id \<Rightarrow>
      if \<not> truthy file_id then
        (Inr (create_response 400 (JObj [(''error'', JStr ''Missing file_id'')])), w)
      else
      case update_item e w file_id user_id ''completed'' (clock e 0) of
        (Inr u, w') \<Rightarrow>
          (Inr (create_response 200 (JObj [(''message'', JStr ''Upload completed successfully'')])), w')
      | (Inl (ClientError code), w') \<Rightarrow>
          if code = ''ConditionalCheckFailedException'' then
            (Inr (create_response 404 (JObj [(''error'', JStr ''File not found or access denied'')])), w')
          else (Inr (create_response 500 (JObj [(''error'', JStr ''Database error'')])), w')
      | (Inl x, w') \<Rightarrow> (Inl x, w'))"

definition handle_get_download_url :: "env \<Rightarrow> world \<Rightarrow> json \<Rightarrow> string
    \<Rightarrow> (exn + response) \<times> world" where
  "handle_get_download_url e w body user_id =
     (case dict_get body ''file_id'' JNull of Inl x \<Rightarrow> (Inl x, w) | Inr file_id \<Rightarrow>
      if \<not> truthy file_id then
        (Inr (create_response 400 (JObj [(''error'', JStr ''Missing file_id'')])), w)
      else
      case get_item e w file_id user_id of
        (Inl x, w') \<Rightarrow>
          (Inr (create_response 500 (JObj [(''error'', JStr ''Internal server error'')])), w')
      | (Inr None, w') \<Rightarrow>
          (Inr (create_response 404 (JObj [(''error'', JStr ''File not found'')])), w')
      | (Inr (Some file_item), w') \<Rightarrow>
          (case create_signed_url e w' (key_text file_id) (item_filename file_item) user_id
                  ''get_object'' of
             (None, w2) \<Rightarrow>
               (Inr (create_response 500
                  (JObj [(''error'', JStr ''Failed to generate download URL'')])), w2)
           | (Some download_url, w2) \<Rightarrow>
               if download_url = [] then
                 (Inr (create_response 500
                    (JObj [(''error'', JStr ''Failed to generate download URL'')])), w2)
               else if has_number (item_file_size file_item) \<or> has_number (item_title file_item)
                 \<or> has_number (item_description file_item) \<or> has_number (item_tags file_item)
               then
                 (Inr (create_response 500 (JObj [(''error'', JStr ''Internal server error'')])), w2)
               else
                 (Inr (create_response 200
                    (JObj [(''download_url'', JStr download_url),
                           (''file_info'',
                              JObj [(''filename'', JStr (item_filename file_item)),
                                    (''file_type'', JStr (item_file_type file_item)),
                                    (''file_size'', item_file_size file_item),
                                    (''title'', item_title file_item),
                                    (''description'', item_description file_item),
                                    (''tags'', item_tags file_item)]),
                           (''expires_in'', JInt 3600)])), w2)))"

text \<open>The body of the \<^verbatim>\<open>try\<close> of \<^verbatim>\<open>handler(event, context)\<close>, and the handler itself, whose
  \<^verbatim>\<open>except Exception\<close> turns every exception into the 500 answer.\<close>

definition handler_try :: "env \<Rightarrow> world \<Rightarrow> json \<Rightarrow> (exn + response) \<times> world" where
  "handler_try e w event =
     (case dict_get event ''httpMethod'' JNull of Inl x \<Rightarrow> (Inl x, w) | Inr http_method \<Rightarrow>
      if http_method = JStr ''OPTIONS'' then
        (Inr (create_response 200 (JObj [(''message'', JStr ''OK'')])), w)
      else
      case dict_get event ''headers'' (JObj []) of Inl x \<Rightarrow> (Inl x, w) | Inr headers \<Rightarrow>
      case dict_get headers ''Authorization'' (JStr []) of
        Inl x \<Rightarrow> (Inl x, w)
      | Inr (JStr auth_header) \<Rightarrow>
          if \<not> prefix ''Bearer '' auth_header then
            (Inr (create_response 401
               (JObj [(''error'', JStr ''Missing or invalid authorization header'')])), w)
          else
          (let token = takeWhile (\<lambda>c. c \<noteq> CHR '' '') (drop 7 auth_header) in
           case verify_token e w token of
             (None, w1) \<Rightarrow>
               (Inr (create_response 401 (JObj [(''error'', JStr ''Invalid or expired token'')])), w1)
           | (Some info, w1) \<Rightarrow>
               (let user_id = ui_user_id info in
                case dict_get event ''body'' (JStr ''{}'') of
                  Inr (JStr text) \<Rightarrow>
                    (case json_loads e text of
                       None \<Rightarrow>
                         (Inr (create_response 400
                            (JObj [(''error'', JStr ''Invalid JSON in request body'')])), w1)
                     | Some body \<Rightarrow>
                         (case dict_get body ''operation'' (JStr ''get_upload_url'') of
                            Inl x \<Rightarrow> (Inl x, w1)
                          | Inr operation \<Rightarrow>
                              if operation = JStr ''get_upload_url'' then
                                handle_get_upload_url e w1 body user_id
                              else if operation = JStr ''complete_upload'' then
                                handle_complete_upload e w1 body user_id
                              else if operation = JStr ''get_download_url'' then
                                handle_get_download_url e w1 body user_id
                              else
                                (Inr (create_response 400
                                   (JObj [(''error'', JStr ''Invalid operation'')])), w1)))
                | Inr other \<Rightarrow> (Inl TypeError, w1)
                | Inl x \<Rightarrow> (Inl x, w1)))
      | Inr other \<Rightarrow> (Inl AttributeError, w))"

definition except_exception :: "(exn + response) \<times> world \<Rightarrow> response \<times> world" where
  "except_exception outcome =
     (case outcome of
        (Inl x, w') \<Rightarrow> (create_response 500 (JObj [(''error'', JStr ''Internal server error'')]), w')
      | (Inr r, w') \<Rightarrow> (r, w'))"

definition handler :: "env \<Rightarrow> world \<Rightarrow> json \<Rightarrow> response \<times> world" where
  "handler e w event = except_exception (handler_try e w event)"

text \<open>The states of the table that requests can produce, starting from the empty table;
  each request meets an environment of its own.\<close>

definition empty_world :: world where
  "empty_world = \<lparr>files = [], calls = []\<rparr>"



section \<open>An example deployment\<close>

text \<open>
  A concrete environment for running the handler: one valid token, of the user \<open>u1\<close>, a
  signer that always answers, a table without faults, and a clock that stands still.
  \<open>example_loads\<close> decodes the request bodies of the examples, each the dump of its value.
\<close>

definition upload_request :: json where
  "upload_request =
     JObj [(''operation'', JStr ''get_upload_url''),
           (''file_info'', JObj [(''name'', JStr ''photo.jpg''), (''size'', JInt 1024),
                                 (''type'', JStr ''image/jpeg'')]),
           (''metadata'', JObj [(''title'', JStr ''Photo'')])]"

definition complete_request :: json where
  "complete_request =
     JObj [(''operation'', JStr ''complete_upload''), (''file_id'', JStr ''u1_af3afa45'')]"

definition download_request :: json where
  "download_request =
     JObj [(''operation'', JStr ''get_download_url''), (''file_id'', JStr ''u1_af3afa45'')]"

definition example_loads :: "string \<Rightarrow> json option" where
  "example_loads text =
     find (\<lambda>v. json_dumps v = text) [JObj [], upload_request, complete_request, download_request]"

definition example_env :: env where
  "example_env =
     \<lparr>jwt_sub = (\<lambda>token. if token = ''valid_token_123'' then Inr ''u1'' else Inl OtherError),
      cognito_get_user =
        (\<lambda>token. if token = ''valid_token_123''
                 then Inr \<lparr>Username = ''testuser'',
                           UserAttributes = [(''email'', ''test@example.com'')]\<rparr>
                 else Inl (ClientError ''NotAuthorizedException'')),
      presigned_url = (\<lambda>operation key content_type expires. Inr (''https://s3.example/'' @ key)),
      json_loads = example_loads,
      put_fault = None,
      update_fault = None,
      get_fault = None,
      clock = (\<lambda>k. ''2024-01-01T00:00:00.081673+00:00'')\<rparr>"

definition post_event :: "string \<Rightarrow> json \<Rightarrow> json" where
  "post_event authorization request =
     JObj [(''httpMethod'', JStr ''POST''),
           (''headers'', JObj [(''Authorization'', JStr authorization)]),
           (''body'', JStr (json_dumps request))]"


text \<open>The record that the example upload of \<open>photo.jpg\<close> stores.\<close>

definition photo_item :: "string \<Rightarrow> string \<Rightarrow> string \<Rightarrow> string \<Rightarrow> item" where
  "photo_item user_id file_id upload_date last_modified =
     \<lparr>item_file_id = file_id, item_user_id = user_id,
      item_filename = ''photo.jpg'', item_file_type = ''image'',
      item_file_size = JInt 1024, item_content_type = JStr ''image/jpeg'',
      item_s3_key = s3_object_key user_id file_id ''photo.jpg'',
      item_title = JStr ''Photo'', item_description = JStr [],
      item_tags = JList [],
      item_upload_date = upload_date,
      item_last_modified = last_modified,
      item_version = 1, item_status = ''uploading''\<rparr>"

text \<open>A table with one record of the user \<open>u2\<close> and one of the user \<open>u1\<close>.\<close>

definition two_owner_world :: world where
  "two_owner_world =
     \<lparr>files = [photo_item ''u2'' ''u2_0badc0de'' ''2024-01-01T00:00:00.081673+00:00''
                 ''2024-01-01T00:00:00.081673+00:00'',
               photo_item ''u1'' ''u1_af3afa45'' ''2024-01-01T00:00:00.081673+00:00''
                 ''2024-01-01T00:00:00.081673+00:00''],
      calls = []\<rparr>"

text \<open>The example deployment sixteen milliseconds later, and the two dictionaries of the
  example upload.\<close>

definition later_env :: env where
  "later_env = example_env\<lparr>clock := (\<lambda>k. ''2024-01-01T00:00:00.097774+00:00'')\<rparr>"

definition photo_info :: json where
  "photo_info = JObj [(''name'', JStr ''photo.jpg''), (''size'', JInt 1024),
                      (''type'', JStr ''image/jpeg'')]"

definition photo_metadata :: json where
  "photo_metadata = JObj [(''title'', JStr ''Photo'')]"




section \<open>Properties of the validation\<close>

declare str_nat.simps [simp del]

lemma MAX_FILE_SIZE_value: "MAX_FILE_SIZE = 104857600"
  by (simp add: MAX_FILE_SIZE_def)

lemma size_error_value: "size_error = ''File size exceeds maximum limit of 104857600 bytes''"
  by (simp add: size_error_def MAX_FILE_SIZE_def str_int_def str_nat.simps)

lemma allowed_extensions_concat:
  "foldl (\<lambda>acc extensions. acc @ extensions) [] (map snd ALLOWED_EXTENSIONS)
     = concat (map snd ALLOWED_EXTENSIONS)"
  by (simp add: ALLOWED_EXTENSIONS_def)

lemma type_error_neq_size_error: "type_error ext \<noteq> size_error"
  by (simp add: type_error_def size_error_value)

lemma type_error_neq_name_error: "type_error ext \<noteq> name_error"
  by (simp add: type_error_def name_error_def)

lemma name_error_neq_size_error: "name_error \<noteq> size_error"
  by (simp add: name_error_def size_error_value)

lemma validate_file_union:
  assumes "dict_get file_info ''size'' (JInt 0) = Inr (JInt n)"
    and "dict_get file_info ''name'' (JStr []) = Inr (JStr name)"
  shows "validate_file file_info =
     Inr ((if n > MAX_FILE_SIZE then [size_error] else [])
        @ (if lower (snd (splitext name)) \<notin> set (concat (map snd ALLOWED_EXTENSIONS))
           then [type_error (lower (snd (splitext name)))] else [])
        @ (if name = [] \<or> length name > 255 then [name_error] else []))"
  using assms by (simp add: validate_file_def allowed_extensions_concat Let_def)

text \<open>
  Claim C6. A declared size over the maximum of 100 MiB (104857600 bytes) always adds the
  size violation to the result of \<open>validate_file\<close>; a declared size up to the maximum with
  an extension of the allow-list gives a result with neither the size violation nor a
  type violation. The declared size is read with \<^verbatim>\<open>file_info.get('size', 0)\<close> and the
  name with \<^verbatim>\<open>file_info.get('name', '')\<close>; the extension is the lower-cased second
  component of \<^verbatim>\<open>os.path.splitext\<close>.
\<close>

theorem validate_file_size:
  assumes "dict_get file_info ''size'' (JInt 0) = Inr (JInt n)"
    and "dict_get file_info ''name'' (JStr []) = Inr (JStr name)"
  shows "MAX_FILE_SIZE = 100 * 1024 * 1024 \<and>
    (n > MAX_FILE_SIZE \<longrightarrow>
       (\<exists>errors. validate_file file_info = Inr errors \<and> size_error \<in> set errors)) \<and>
    (n \<le> MAX_FILE_SIZE \<and> lower (snd (splitext name)) \<in> set (concat (map snd ALLOWED_EXTENSIONS)) \<longrightarrow>
       (\<exists>errors. validate_file file_info = Inr errors \<and> size_error \<notin> set errors \<and>
          (\<forall>ext. type_error ext \<notin> set errors)))"
proof (intro conjI impI)
  show "MAX_FILE_SIZE = 100 * 1024 * 1024" by (simp add: MAX_FILE_SIZE_def)
next
  assume "n > MAX_FILE_SIZE"
  then show "\<exists>errors. validate_file file_info = Inr errors \<and> size_error \<in> set errors"
    by (simp add: validate_file_union [OF assms])
next
  assume "n \<le> MAX_FILE_SIZE \<and>
    lower (snd (splitext name)) \<in> set (concat (map snd ALLOWED_EXTENSIONS))"
  then show "\<exists>errors. validate_file file_info = Inr errors \<and> size_error \<notin> set errors \<and>
          (\<forall>ext. type_error ext \<notin> set errors)"
    using type_error_neq_name_error name_error_neq_size_error
    by (auto simp add: validate_file_union [OF assms])
qed

theorem validate_file_size_witness:
  "(\<exists>errors. validate_file (JObj [(''name'', JStr ''large_file.jpg''), (''size'', JInt 209715200)])
       = Inr errors \<and> size_error \<in> set errors) \<and>
   (\<exists>errors. validate_file (JObj [(''name'', JStr ''photo.JPG''), (''size'', JInt 104857600)])
       = Inr errors \<and> size_error \<notin> set errors \<and> (\<forall>ext. type_error ext \<notin> set errors))"
proof -
  have b: "lower (snd (splitext ''photo.JPG'')) = ''.jpg''" by code_simp
  have c: "''.jpg'' \<in> set (concat (map snd ALLOWED_EXTENSIONS))"
    by (simp add: ALLOWED_EXTENSIONS_def)
  have "\<exists>errors. validate_file (JObj [(''name'', JStr ''large_file.jpg''), (''size'', JInt 209715200)])
       = Inr errors \<and> size_error \<in> set errors"
    using validate_file_size [of "JObj [(''name'', JStr ''large_file.jpg''), (''size'', JInt 209715200)]"
        "209715200" "''large_file.jpg''"]
    by (simp add: MAX_FILE_SIZE_value)
  moreover have "\<exists>errors. validate_file (JObj [(''name'', JStr ''photo.JPG''), (''size'', JInt 104857600)])
       = Inr errors \<and> size_error \<notin> set errors \<and> (\<forall>ext. type_error ext \<notin> set errors)"
    using validate_file_size [of "JObj [(''name'', JStr ''photo.JPG''), (''size'', JInt 104857600)]"
        "104857600" "''photo.JPG''"] c
    by (simp only: b dict_get.simps map_of.simps fst_conv snd_conv) (simp add: MAX_FILE_SIZE_value)
  ultimately show ?thesis by simp
qed

text \<open>
  Claim C7. The three rules of \<open>validate_file\<close> are evaluated one after the other and none
  stops the others: the result is the list of all violations that apply, in the order
  size, type, name. In particular a name whose lower-cased extension is not in the
  allow-list gets the type violation whatever the declared size is.
\<close>

theorem validate_file_type:
  assumes "dict_get file_info ''size'' (JInt 0) = Inr (JInt n)"
    and "dict_get file_info ''name'' (JStr []) = Inr (JStr name)"
  shows "validate_file file_info =
     Inr ((if n > MAX_FILE_SIZE then [size_error] else [])
        @ (if lower (snd (splitext name)) \<notin> set (concat (map snd ALLOWED_EXTENSIONS))
           then [type_error (lower (snd (splitext name)))] else [])
        @ (if name = [] \<or> length name > 255 then [name_error] else []))
   \<and> (lower (snd (splitext name)) \<notin> set (concat (map snd ALLOWED_EXTENSIONS)) \<longrightarrow>
       (\<exists>errors. validate_file file_info = Inr errors \<and>
           type_error (lower (snd (splitext name))) \<in> set errors))"
  by (simp add: validate_file_union [OF assms])

theorem validate_file_type_witness:
  "validate_file (JObj [(''name'', JStr ''script.EXE''), (''size'', JInt 209715200)])
     = Inr [size_error, type_error ''.exe'']
   \<and> (\<exists>errors. validate_file (JObj [(''name'', JStr ''script.EXE''), (''size'', JInt 209715200)])
          = Inr errors \<and> type_error ''.exe'' \<in> set errors)"
proof -
  have b: "lower (snd (splitext ''script.EXE'')) = ''.exe''" by code_simp
  have c: "''.exe'' \<notin> set (concat (map snd ALLOWED_EXTENSIONS))"
    by (simp add: ALLOWED_EXTENSIONS_def)
  show ?thesis
    using validate_file_type [of "JObj [(''name'', JStr ''script.EXE''), (''size'', JInt 209715200)]"
        "209715200" "''script.EXE''"] c
    by (simp only: b dict_get.simps map_of.simps fst_conv snd_conv) (simp add: MAX_FILE_SIZE_value)
qed

section \<open>Properties of the handler\<close>

lemma dumps_message_ok: \<open>json_dumps (JObj [(''message'', JStr ''OK'')]) = ''{"message": "OK"}''\<close>
  by code_simp

lemma options_response:
  \<open>statusCode (create_response 200 (JObj [(''message'', JStr ''OK'')])) = 200 \<and>
   resp_body (create_response 200 (JObj [(''message'', JStr ''OK'')])) = ''{"message": "OK"}''\<close>
  unfolding create_response_def dumps_message_ok by simp

lemma handler_try_options:
  assumes "dict_get event ''httpMethod'' JNull = Inr (JStr ''OPTIONS'')"
  shows "handler e w event = (create_response 200 (JObj [(''message'', JStr ''OK'')]), w)"
  using assms by (simp add: handler_def handler_try_def except_exception_def)

lemma verify_token_None_iff:
  "fst (verify_token e w token) = None \<longleftrightarrow>
     (\<exists>x. jwt_sub e token = Inl x) \<or> (\<exists>x. cognito_get_user e token = Inl x)"
  by (auto simp add: verify_token_def Let_def split: sum.splits)

lemma verify_token_files: "files (snd (verify_token e w token)) = files w"
  by (simp add: verify_token_def Let_def log_call_def split: sum.splits)

lemma post_event_fields:
  "dict_get (post_event a r) ''httpMethod'' JNull = Inr (JStr ''POST'')"
  "dict_get (post_event a r) ''headers'' (JObj []) = Inr (JObj [(''Authorization'', JStr a)])"
  "dict_get (post_event a r) ''body'' (JStr ''{}'') = Inr (JStr (json_dumps r))"
  by (simp_all add: post_event_def)

lemma dumps_error_key: \<open>dumps_str ''error'' = ''"error"''\<close>
  by code_simp

lemma dumps_invalid_operation: \<open>dumps_str ''Invalid operation'' = ''"Invalid operation"''\<close>
  by code_simp

lemma dumps_validation_failed: \<open>dumps_str ''File validation failed'' = ''"File validation failed"''\<close>
  by code_simp

lemma validation_response_neq:
  "create_response 400 (JObj [(''error'', JStr ''File validation failed''), (''details'', d)])
     \<noteq> create_response 400 (JObj [(''error'', JStr ''Invalid operation'')])"
  by (simp add: create_response_def dumps_error_key dumps_invalid_operation dumps_validation_failed)

lemma create_response_status: "statusCode (create_response n b) = n"
  by (simp add: create_response_def)

lemma get_upload_url_answers:
  "statusCode (fst (except_exception (handle_get_upload_url e w body user_id))) \<in> {200, 500}
   \<or> (\<exists>d. fst (except_exception (handle_get_upload_url e w body user_id)) =
         create_response 400 (JObj [(''error'', JStr ''File validation failed''), (''details'', d)]))"
  by (auto simp add: handle_get_upload_url_def except_exception_def create_response_status Let_def
      split: sum.splits json.splits prod.splits option.splits bool.splits)

lemma example_verify_token:
  "verify_token example_env w ''valid_token_123'' =
     (Some \<lparr>ui_user_id = ''u1'', ui_username = ''testuser'',
            ui_attributes = map_of [(''email'', ''test@example.com'')]\<rparr>,
      log_call (CognitoGetUser ''valid_token_123'') w)"
  by (simp add: verify_token_def example_env_def)

lemma example_loads_empty: "json_loads example_env (json_dumps (JObj [])) = Some (JObj [])"
  by (simp add: example_env_def example_loads_def)

text \<open>
  Claim C9, as the code has it. An \<^verbatim>\<open>OPTIONS\<close> request is answered before the credentials
  and the body are looked at: status 200, the CORS headers, and the JSON text of
  \<^verbatim>\<open>{'message': 'OK'}\<close> as the body. No collaborator is called and the table stays as it
  was. The body is not empty: there the code and the "no body" of the claim part ways.
\<close>

theorem handler_options:
  assumes "dict_get event ''httpMethod'' JNull = Inr (JStr ''OPTIONS'')"
  shows \<open>handler e w event = (create_response 200 (JObj [(''message'', JStr ''OK'')]), w)
    \<and> statusCode (fst (handler e w event)) = 200
    \<and> resp_body (fst (handler e w event)) = ''{"message": "OK"}''\<close>
  unfolding handler_try_options [OF assms] fst_conv using options_response by blast

theorem handler_options_witness:
  \<open>handler example_env empty_world (JObj [(''httpMethod'', JStr ''OPTIONS'')])
     = (create_response 200 (JObj [(''message'', JStr ''OK'')]), empty_world)
    \<and> statusCode (fst (handler example_env empty_world (JObj [(''httpMethod'', JStr ''OPTIONS'')]))) = 200
    \<and> resp_body (fst (handler example_env empty_world (JObj [(''httpMethod'', JStr ''OPTIONS'')])))
        = ''{"message": "OK"}''\<close>
  by (rule handler_options) simp

theorem handler_options_body_counterexample:
  \<open>resp_body (fst (handler example_env empty_world (JObj [(''httpMethod'', JStr ''OPTIONS'')])))
     = ''{"message": "OK"}''
   \<and> resp_body (fst (handler example_env empty_world (JObj [(''httpMethod'', JStr ''OPTIONS'')])))
     \<noteq> []\<close>
proof -
  have "handler example_env empty_world (JObj [(''httpMethod'', JStr ''OPTIONS'')])
      = (create_response 200 (JObj [(''message'', JStr ''OK'')]), empty_world)"
    by (rule handler_try_options) simp
  then show ?thesis
    unfolding fst_conv using options_response by simp
qed

text \<open>
  The authentication check on a request that is not an \<^verbatim>\<open>OPTIONS\<close> request and whose
  \<^verbatim>\<open>headers\<close> are a dictionary (or are not in the event): without an \<^verbatim>\<open>Authorization\<close>
  entry that starts with \<^verbatim>\<open>Bearer \<close> the handler answers 401 and the state (the table and
  the log of calls to collaborators) is untouched. When the header has the form and
  \<open>verify_token\<close> fails, the answer is one fixed 401 response, whatever made the
  verification fail: the token could not be decoded, or the identity provider refused
  it. The table is unchanged then, too.
\<close>

lemma handler_unauthorized:
  assumes "dict_get event ''httpMethod'' JNull = Inr http_method"
    and "http_method \<noteq> JStr ''OPTIONS''"
    and "dict_get event ''headers'' (JObj []) = Inr headers"
    and "dict_get headers ''Authorization'' (JStr []) = Inr (JStr auth_header)"
  shows "(\<not> prefix ''Bearer '' auth_header \<longrightarrow>
            handler e w event =
              (create_response 401
                 (JObj [(''error'', JStr ''Missing or invalid authorization header'')]), w))
    \<and> (prefix ''Bearer '' auth_header \<and>
         fst (verify_token e w (takeWhile (\<lambda>c. c \<noteq> CHR '' '') (drop 7 auth_header))) = None \<longrightarrow>
            fst (handler e w event) =
              create_response 401 (JObj [(''error'', JStr ''Invalid or expired token'')])
            \<and> files (snd (handler e w event)) = files w)
    \<and> (\<forall>token. fst (verify_token e w token) = None \<longleftrightarrow>
          (\<exists>x. jwt_sub e token = Inl x) \<or> (\<exists>x. cognito_get_user e token = Inl x))
    \<and> statusCode (create_response 401 body) = 401"
proof (intro conjI impI allI)
  assume "\<not> prefix ''Bearer '' auth_header"
  with assms show "handler e w event =
      (create_response 401 (JObj [(''error'', JStr ''Missing or invalid authorization header'')]), w)"
    by (simp add: handler_def handler_try_def except_exception_def)
next
  assume a: "prefix ''Bearer '' auth_header \<and>
    fst (verify_token e w (takeWhile (\<lambda>c. c \<noteq> CHR '' '') (drop 7 auth_header))) = None"
  obtain w1 where v: "verify_token e w (takeWhile (\<lambda>c. c \<noteq> CHR '' '') (drop 7 auth_header)) = (None, w1)"
    using a by (cases "verify_token e w (takeWhile (\<lambda>c. c \<noteq> CHR '' '') (drop 7 auth_header))") auto
  have h: "handler e w event =
      (create_response 401 (JObj [(''error'', JStr ''Invalid or expired token'')]), w1)"
    using assms a v by (simp add: handler_def handler_try_def except_exception_def Let_def)
  show "fst (handler e w event) =
      create_response 401 (JObj [(''error'', JStr ''Invalid or expired token'')])"
    by (simp add: h)
  have "files w1 = files w"
    using verify_token_files [of e w "takeWhile (\<lambda>c. c \<noteq> CHR '' '') (drop 7 auth_header)"] v
    by simp
  then show "files (snd (handler e w event)) = files w" by (simp add: h)
next
  fix token
  show "fst (verify_token e w token) = None \<longleftrightarrow>
     (\<exists>x. jwt_sub e token = Inl x) \<or> (\<exists>x. cognito_get_user e token = Inl x)"
    by (rule verify_token_None_iff)
next
  show "statusCode (create_response 401 body) = 401" by (simp add: create_response_def)
qed

lemma handler_unauthorized_examples:
  "handler example_env empty_world (post_event ''InvalidFormat'' (JObj [])) =
      (create_response 401
         (JObj [(''error'', JStr ''Missing or invalid authorization header'')]), empty_world)
   \<and> fst (handler example_env empty_world (post_event ''Bearer expired_token'' (JObj []))) =
        create_response 401 (JObj [(''error'', JStr ''Invalid or expired token'')])"
proof -
  have a: "handler example_env empty_world (post_event ''InvalidFormat'' (JObj [])) =
      (create_response 401
         (JObj [(''error'', JStr ''Missing or invalid authorization header'')]), empty_world)"
    using handler_unauthorized [of "post_event ''InvalidFormat'' (JObj [])" "JStr ''POST''"
        "JObj [(''Authorization'', JStr ''InvalidFormat'')]" "''InvalidFormat''"
        example_env empty_world]
    by (simp add: post_event_fields)
  have t: "fst (verify_token example_env empty_world ''expired_token'') = None"
    by (simp add: verify_token_def example_env_def)
  have b: "fst (handler example_env empty_world (post_event ''Bearer expired_token'' (JObj []))) =
        create_response 401 (JObj [(''error'', JStr ''Invalid or expired token'')])"
    using handler_unauthorized [of "post_event ''Bearer expired_token'' (JObj [])" "JStr ''POST''"
        "JObj [(''Authorization'', JStr ''Bearer expired_token'')]" "''Bearer expired_token''"
        example_env empty_world] t
    by (simp add: post_event_fields)
  from a b show ?thesis by simp
qed

text \<open>
  Claim C8. A request without an \<^verbatim>\<open>Authorization\<close> header is to be answered 401 before
  any operation is dispatched. The handler reads the header with
  \<^verbatim>\<open>event.get('headers', {}).get('Authorization', '')\<close>; the default covers an event without
  the key \<^verbatim>\<open>headers\<close>, but not an event that carries \<^verbatim>\<open>headers: null\<close>. There the second
  \<^verbatim>\<open>get\<close> raises, and the handler's \<^verbatim>\<open>except Exception\<close> answers 500 "Internal server
  error" instead of 401. No collaborator is called and the state is as before.
\<close>

theorem handler_null_headers:
  "handler e w (JObj [(''httpMethod'', JStr ''POST''), (''headers'', JNull), (''body'', JStr ''{}'')])
     = (create_response 500 (JObj [(''error'', JStr ''Internal server error'')]), w)
   \<and> statusCode (fst (handler e w
         (JObj [(''httpMethod'', JStr ''POST''), (''headers'', JNull), (''body'', JStr ''{}'')])))
     = 500"
  by (simp add: handler_def handler_try_def except_exception_def create_response_def)

text \<open>
  Claim C10. An authenticated request that is not an \<^verbatim>\<open>OPTIONS\<close> request and whose body
  decodes to a JSON object without an \<^verbatim>\<open>operation\<close> entry is handled by
  \<open>handle_get_upload_url\<close>: the answer and the state are the ones this operation gives (an
  exception that leaves it becomes the 500 answer), and the answer is never the
  "Invalid operation" rejection.
\<close>

theorem handler_default_operation:
  assumes "dict_get event ''httpMethod'' JNull = Inr http_method"
    and "http_method \<noteq> JStr ''OPTIONS''"
    and "dict_get event ''headers'' (JObj []) = Inr headers"
    and "dict_get headers ''Authorization'' (JStr []) = Inr (JStr auth_header)"
    and "prefix ''Bearer '' auth_header"
    and "verify_token e w (takeWhile (\<lambda>c. c \<noteq> CHR '' '') (drop 7 auth_header)) = (Some info, w1)"
    and "dict_get event ''body'' (JStr ''{}'') = Inr (JStr text)"
    and "json_loads e text = Some (JObj kvs)"
    and "map_of kvs ''operation'' = None"
  shows "handler e w event =
           except_exception (handle_get_upload_url e w1 (JObj kvs) (ui_user_id info))
     \<and> fst (handler e w event) \<noteq> create_response 400 (JObj [(''error'', JStr ''Invalid operation'')])"
proof -
  have h: "handler e w event =
           except_exception (handle_get_upload_url e w1 (JObj kvs) (ui_user_id info))"
    using assms by (simp add: handler_def handler_try_def Let_def)
  have "fst (except_exception (handle_get_upload_url e w1 (JObj kvs) (ui_user_id info)))
      \<noteq> create_response 400 (JObj [(''error'', JStr ''Invalid operation'')])"
    using get_upload_url_answers [of e w1 "JObj kvs" "ui_user_id info"] validation_response_neq
    by (auto simp add: create_response_status)
  with h show ?thesis by simp
qed

theorem handler_default_operation_witness:
  "handler example_env empty_world (post_event ''Bearer valid_token_123'' (JObj [])) =
     except_exception (handle_get_upload_url example_env
        (log_call (CognitoGetUser ''valid_token_123'') empty_world) (JObj []) (ui_user_id
          \<lparr>ui_user_id = ''u1'', ui_username = ''testuser'',
            ui_attributes = map_of [(''email'', ''test@example.com'')]\<rparr>))
   \<and> fst (handler example_env empty_world (post_event ''Bearer valid_token_123'' (JObj [])))
       \<noteq> create_response 400 (JObj [(''error'', JStr ''Invalid operation'')])"
proof (rule handler_default_operation)
  show "dict_get (post_event ''Bearer valid_token_123'' (JObj [])) ''httpMethod'' JNull
      = Inr (JStr ''POST'')"
    by (rule post_event_fields)
  show "JStr ''POST'' \<noteq> JStr ''OPTIONS''" by simp
  show "dict_get (post_event ''Bearer valid_token_123'' (JObj [])) ''headers'' (JObj [])
      = Inr (JObj [(''Authorization'', JStr ''Bearer valid_token_123'')])"
    by (rule post_event_fields)
  show "dict_get (JObj [(''Authorization'', JStr ''Bearer valid_token_123'')]) ''Authorization''
      (JStr []) = Inr (JStr ''Bearer valid_token_123'')"
    by simp
  show "prefix ''Bearer '' ''Bearer valid_token_123''" by simp
  show "verify_token example_env empty_world
      (takeWhile (\<lambda>c. c \<noteq> CHR '' '') (drop 7 ''Bearer valid_token_123'')) =
     (Some \<lparr>ui_user_id = ''u1'', ui_username = ''testuser'',
            ui_attributes = map_of [(''email'', ''test@example.com'')]\<rparr>,
      log_call (CognitoGetUser ''valid_token_123'') empty_world)"
    by (simp add: example_verify_token)
  show "dict_get (post_event ''Bearer valid_token_123'' (JObj [])) ''body'' (JStr ''{}'')
      = Inr (JStr (json_dumps (JObj [])))"
    by (rule post_event_fields)
  show "json_loads example_env (json_dumps (JObj [])) = Some (JObj [])"
    by (rule example_loads_empty)
  show "map_of [] ''operation'' = None" by simp
qed

section \<open>Two digests\<close>

text \<open>
  The digests of the two inputs that the examples hash, computed step by step: the bytes,
  the padded block, its sixteen words, the state after every eight steps, and the digest.
\<close>

lemma le_bytes_numeral:
  "le_bytes (numeral k) n = (n mod 256) # le_bytes (pred_numeral k) (n div 256)"
proof -
  have "le_bytes (Suc (pred_numeral k)) n = (n mod 256) # le_bytes (pred_numeral k) (n div 256)"
    by (rule le_bytes.simps)
  then show ?thesis by (simp only: numeral_eq_Suc [symmetric])
qed

lemma chunks_numeral:
  "chunks (numeral k) n xs = take n xs # chunks (pred_numeral k) n (drop n xs)"
proof -
  have "chunks (Suc (pred_numeral k)) n xs = take n xs # chunks (pred_numeral k) n (drop n xs)"
    by (rule chunks.simps)
  then show ?thesis by (simp only: numeral_eq_Suc [symmetric])
qed

lemma md5_rounds_split:
  "md5_rounds = [0, 1, 2, 3, 4, 5, 6, 7] @ [8, 9, 10, 11, 12, 13, 14, 15]
     @ [16, 17, 18, 19, 20, 21, 22, 23] @ [24, 25, 26, 27, 28, 29, 30, 31]
     @ [32, 33, 34, 35, 36, 37, 38, 39] @ [40, 41, 42, 43, 44, 45, 46, 47]
     @ [48, 49, 50, 51, 52, 53, 54, 55] @ [56, 57, 58, 59, 60, 61, 62, 63]"
  by (simp add: md5_rounds_def)

lemma replicate_numeral_Cons:
  "replicate (numeral k) x = x # replicate (pred_numeral k) x"
proof -
  have "replicate (Suc (pred_numeral k)) x = x # replicate (pred_numeral k) x"
    by (rule replicate.simps)
  then show ?thesis by (simp only: numeral_eq_Suc [symmetric])
qed

lemma first_bytes:
  "utf8_encode ''u1photo.jpg2024-01-01T00:00:00.081673+00:00'' =
     [117, 49, 112, 104, 111, 116, 111, 46, 106, 112, 103, 50, 48, 50, 52, 45, 48, 49, 45,
      48, 49, 84, 48, 48, 58, 48, 48, 58, 48, 48, 46, 48, 56, 49, 54, 55, 51, 43, 48, 48, 58,
      48, 48]"
  by (simp add: utf8_encode_def utf8_char_def)

lemma first_padded:
  "md5_pad [117, 49, 112, 104, 111, 116, 111, 46, 106, 112, 103, 50, 48, 50, 52, 45, 48, 49, 45,
      48, 49, 84, 48, 48, 58, 48, 48, 58, 48, 48, 46, 48, 56, 49, 54, 55, 51, 43, 48, 48, 58,
      48, 48] =
     [117, 49, 112, 104, 111, 116, 111, 46, 106, 112, 103, 50, 48, 50, 52, 45, 48, 49, 45,
      48, 49, 84, 48, 48, 58, 48, 48, 58, 48, 48, 46, 48, 56, 49, 54, 55, 51, 43, 48, 48, 58,
      48, 48, 128, 0, 0, 0, 0, 0, 0, 0, 0, 0, 0, 0, 0, 88, 1, 0, 0, 0, 0, 0, 0]"
  by (simp add: md5_pad_def le_bytes_numeral replicate_numeral_Cons)

lemma first_words:
  "md5_words [117, 49, 112, 104, 111, 116, 111, 46, 106, 112, 103, 50, 48, 50, 52, 45, 48, 49, 45,
      48, 49, 84, 48, 48, 58, 48, 48, 58, 48, 48, 46, 48, 56, 49, 54, 55, 51, 43, 48, 48, 58,
      48, 48, 128, 0, 0, 0, 0, 0, 0, 0, 0, 0, 0, 0, 0, 88, 1, 0, 0, 0, 0, 0, 0] =
     [1752183157, 779056239, 845639786, 758395440, 808268080, 808473649, 976236602,
      808333360, 926298424, 808463155, 2150641722, 0, 0, 0, 344, 0]"
  by (simp add: md5_words_def chunks_numeral)

lemma first_rounds_0:
  "fold (md5_step [1752183157, 779056239, 845639786, 758395440, 808268080, 808473649, 976236602,
      808333360, 926298424, 808463155, 2150641722, 0, 0, 0, 344, 0])
     [0, 1, 2, 3, 4, 5, 6, 7]
     (1732584193, 4023233417, 2562383102, 271733878) =
     (2145317982, 552453977, 896723428, 3783674706)"
  by (simp add: md5_K_def md5_s_def u32_def not32_def rotl32_def Let_def)

lemma first_rounds_8:
  "fold (md5_step [1752183157, 779056239, 845639786, 758395440, 808268080, 808473649, 976236602,
      808333360, 926298424, 808463155, 2150641722, 0, 0, 0, 344, 0])
     [8, 9, 10, 11, 12, 13, 14, 15]
     (2145317982, 552453977, 896723428, 3783674706) =
     (4122047552, 3835325366, 3411369210, 1207167696)"
  by (simp add: md5_K_def md5_s_def u32_def not32_def rotl32_def Let_def)

lemma first_rounds_16:
  "fold (md5_step [1752183157, 779056239, 845639786, 758395440, 808268080, 808473649, 976236602,
      808333360, 926298424, 808463155, 2150641722, 0, 0, 0, 344, 0])
     [16, 17, 18, 19, 20, 21, 22, 23]
     (4122047552, 3835325366, 3411369210, 1207167696) =
     (107227944, 3201208978, 2131323684, 621383302)"
  by (simp add: md5_K_def md5_s_def u32_def not32_def rotl32_def Let_def)

lemma first_rounds_24:
  "fold (md5_step [1752183157, 779056239, 845639786, 758395440, 808268080, 808473649, 976236602,
      808333360, 926298424, 808463155, 2150641722, 0, 0, 0, 344, 0])
     [24, 25, 26, 27, 28, 29, 30, 31]
     (107227944, 3201208978, 2131323684, 621383302) =
     (1334094374, 393322390, 2609742693, 3360277054)"
  by (simp add: md5_K_def md5_s_def u32_def not32_def rotl32_def Let_def)

lemma first_rounds_32:
  "fold (md5_step [1752183157, 779056239, 845639786, 758395440, 808268080, 808473649, 976236602,
      808333360, 926298424, 808463155, 2150641722, 0, 0, 0, 344, 0])
     [32, 33, 34, 35, 36, 37, 38, 39]
     (1334094374, 393322390, 2609742693, 3360277054) =
     (266944039, 2999988332, 3316644617, 4015258488)"
  by (simp add: md5_K_def md5_s_def u32_def not32_def rotl32_def Let_def)

lemma first_rounds_40:
  "fold (md5_step [1752183157, 779056239, 845639786, 758395440, 808268080, 808473649, 976236602,
      808333360, 926298424, 808463155, 2150641722, 0, 0, 0, 344, 0])
     [40, 41, 42, 43, 44, 45, 46, 47]
     (266944039, 2999988332, 3316644617, 4015258488) =
     (783942781, 2804237328, 2208765359, 1286422256)"
  by (simp add: md5_K_def md5_s_def u32_def not32_def rotl32_def Let_def)

lemma first_rounds_48:
  "fold (md5_step [1752183157, 779056239, 845639786, 758395440, 808268080, 808473649, 976236602,
      808333360, 926298424, 808463155, 2150641722, 0, 0, 0, 344, 0])
     [48, 49, 50, 51, 52, 53, 54, 55]
     (783942781, 2804237328, 2208765359, 1286422256) =
     (1094811167, 4287638249, 3770475523, 1238224120)"
  by (simp add: md5_K_def md5_s_def u32_def not32_def rotl32_def Let_def)

lemma first_rounds_56:
  "fold (md5_step [1752183157, 779056239, 845639786, 758395440, 808268080, 808473649, 976236602,
      808333360, 926298424, 808463155, 2150641722, 0, 0, 0, 344, 0])
     [56, 57, 58, 59, 60, 61, 62, 63]
     (1094811167, 4287638249, 3770475523, 1238224120) =
     (3736410030, 1382433475, 784106935, 2198910886)"
  by (simp add: md5_K_def md5_s_def u32_def not32_def rotl32_def Let_def)

lemma first_chunk:
  "md5_chunk (1732584193, 4023233417, 2562383102, 271733878)
     [1752183157, 779056239, 845639786, 758395440, 808268080, 808473649, 976236602,
      808333360, 926298424, 808463155, 2150641722, 0, 0, 0, 344, 0] =
     (1174026927, 1110699596, 3346490037, 2470644764)"
  unfolding md5_chunk_def md5_rounds_split fold_append comp_apply
    first_rounds_0 first_rounds_8 first_rounds_16 first_rounds_24 first_rounds_32 first_rounds_40 first_rounds_48 first_rounds_56
  by (simp add: u32_def)

lemma first_blocks:
  "chunks (length [117, 49, 112, 104, 111, 116, 111, 46, 106, 112, 103, 50, 48, 50, 52, 45, 48, 49, 45,
      48, 49, 84, 48, 48, 58, 48, 48, 58, 48, 48, 46, 48, 56, 49, 54, 55, 51, 43, 48, 48, 58,
      48, 48, 128, 0, 0, 0, 0, 0, 0, 0, 0, 0, 0, 0, 0, 88, 1, 0, 0, 0, 0, 0, 0] div 64) 64
     [117, 49, 112, 104, 111, 116, 111, 46, 106, 112, 103, 50, 48, 50, 52, 45, 48, 49, 45,
      48, 49, 84, 48, 48, 58, 48, 48, 58, 48, 48, 46, 48, 56, 49, 54, 55, 51, 43, 48, 48, 58,
      48, 48, 128, 0, 0, 0, 0, 0, 0, 0, 0, 0, 0, 0, 0, 88, 1, 0, 0, 0, 0, 0, 0] =
     [[117, 49, 112, 104, 111, 116, 111, 46, 106, 112, 103, 50, 48, 50, 52, 45, 48, 49, 45,
      48, 49, 84, 48, 48, 58, 48, 48, 58, 48, 48, 46, 48, 56, 49, 54, 55, 51, 43, 48, 48, 58,
      48, 48, 128, 0, 0, 0, 0, 0, 0, 0, 0, 0, 0, 0, 0, 88, 1, 0, 0, 0, 0, 0, 0]]"
  by simp

lemma first_digest:
  "md5_hexdigest ''u1photo.jpg2024-01-01T00:00:00.081673+00:00'' =
     ''af3afa454cee3342b56277c71c0c4393''"
  unfolding md5_hexdigest_def md5_digest_def first_bytes first_padded Let_def first_blocks
    List.fold.simps comp_apply id_apply first_words first_chunk prod.case
  by (simp add: le_bytes_numeral hexdigest_def hex_digit_def)

lemma later_bytes:
  "utf8_encode ''u1photo.jpg2024-01-01T00:00:00.097774+00:00'' =
     [117, 49, 112, 104, 111, 116, 111, 46, 106, 112, 103, 50, 48, 50, 52, 45, 48, 49, 45,
      48, 49, 84, 48, 48, 58, 48, 48, 58, 48, 48, 46, 48, 57, 55, 55, 55, 52, 43, 48, 48, 58,
      48, 48]"
  by (simp add: utf8_encode_def utf8_char_def)

lemma later_padded:
  "md5_pad [117, 49, 112, 104, 111, 116, 111, 46, 106, 112, 103, 50, 48, 50, 52, 45, 48, 49, 45,
      48, 49, 84, 48, 48, 58, 48, 48, 58, 48, 48, 46, 48, 57, 55, 55, 55, 52, 43, 48, 48, 58,
      48, 48] =
     [117, 49, 112, 104, 111, 116, 111, 46, 106, 112, 103, 50, 48, 50, 52, 45, 48, 49, 45,
      48, 49, 84, 48, 48, 58, 48, 48, 58, 48, 48, 46, 48, 57, 55, 55, 55, 52, 43, 48, 48, 58,
      48, 48, 128, 0, 0, 0, 0, 0, 0, 0, 0, 0, 0, 0, 0, 88, 1, 0, 0, 0, 0, 0, 0]"
  by (simp add: md5_pad_def le_bytes_numeral replicate_numeral_Cons)

lemma later_words:
  "md5_words [117, 49, 112, 104, 111, 116, 111, 46, 106, 112, 103, 50, 48, 50, 52, 45, 48, 49, 45,
      48, 49, 84, 48, 48, 58, 48, 48, 58, 48, 48, 46, 48, 57, 55, 55, 55, 52, 43, 48, 48, 58,
      48, 48, 128, 0, 0, 0, 0, 0, 0, 0, 0, 0, 0, 0, 0, 88, 1, 0, 0, 0, 0, 0, 0] =
     [1752183157, 779056239, 845639786, 758395440, 808268080, 808473649, 976236602,
      808333360, 926365497, 808463156, 2150641722, 0, 0, 0, 344, 0]"
  by (simp add: md5_words_def chunks_numeral)

lemma later_rounds_0:
  "fold (md5_step [1752183157, 779056239, 845639786, 758395440, 808268080, 808473649, 976236602,
      808333360, 926365497, 808463156, 2150641722, 0, 0, 0, 344, 0])
     [0, 1, 2, 3, 4, 5, 6, 7]
     (1732584193, 4023233417, 2562383102, 271733878) =
     (2145317982, 552453977, 896723428, 3783674706)"
  by (simp add: md5_K_def md5_s_def u32_def not32_def rotl32_def Let_def)

lemma later_rounds_8:
  "fold (md5_step [1752183157, 779056239, 845639786, 758395440, 808268080, 808473649, 976236602,
      808333360, 926365497, 808463156, 2150641722, 0, 0, 0, 344, 0])
     [8, 9, 10, 11, 12, 13, 14, 15]
     (2145317982, 552453977, 896723428, 3783674706) =
     (3048692809, 1986470909, 2781978920, 1085816849)"
  by (simp add: md5_K_def md5_s_def u32_def not32_def rotl32_def Let_def)

lemma later_rounds_16:
  "fold (md5_step [1752183157, 779056239, 845639786, 758395440, 808268080, 808473649, 976236602,
      808333360, 926365497, 808463156, 2150641722, 0, 0, 0, 344, 0])
     [16, 17, 18, 19, 20, 21, 22, 23]
     (3048692809, 1986470909, 2781978920, 1085816849) =
     (1457323644, 254267905, 466330475, 113483900)"
  by (simp add: md5_K_def md5_s_def u32_def not32_def rotl32_def Let_def)

lemma later_rounds_24:
  "fold (md5_step [1752183157, 779056239, 845639786, 758395440, 808268080, 808473649, 976236602,
      808333360, 926365497, 808463156, 2150641722, 0, 0, 0, 344, 0])
     [24, 25, 26, 27, 28, 29, 30, 31]
     (1457323644, 254267905, 466330475, 113483900) =
     (3684563066, 2251560934, 2716957552, 4141057123)"
  by (simp add: md5_K_def md5_s_def u32_def not32_def rotl32_def Let_def)

lemma later_rounds_32:
  "fold (md5_step [1752183157, 779056239, 845639786, 758395440, 808268080, 808473649, 976236602,
      808333360, 926365497, 808463156, 2150641722, 0, 0, 0, 344, 0])
     [32, 33, 34, 35, 36, 37, 38, 39]
     (3684563066, 2251560934, 2716957552, 4141057123) =
     (3757617179, 2488864391, 4089516765, 1283151967)"
  by (simp add: md5_K_def md5_s_def u32_def not32_def rotl32_def Let_def)

lemma later_rounds_40:
  "fold (md5_step [1752183157, 779056239, 845639786, 758395440, 808268080, 808473649, 976236602,
      808333360, 926365497, 808463156, 2150641722, 0, 0, 0, 344, 0])
     [40, 41, 42, 43, 44, 45, 46, 47]
     (3757617179, 2488864391, 4089516765, 1283151967) =
     (3502481425, 858580688, 296757467, 1833895926)"
  by (simp add: md5_K_def md5_s_def u32_def not32_def rotl32_def Let_def)

lemma later_rounds_48:
  "fold (md5_step [1752183157, 779056239, 845639786, 758395440, 808268080, 808473649, 976236602,
      808333360, 926365497, 808463156, 2150641722, 0, 0, 0, 344, 0])
     [48, 49, 50, 51, 52, 53, 54, 55]
     (3502481425, 858580688, 296757467, 1833895926) =
     (1220074361, 3647119657, 30207763, 753029430)"
  by (simp add: md5_K_def md5_s_def u32_def not32_def rotl32_def Let_def)

lemma later_rounds_56:
  "fold (md5_step [1752183157, 779056239, 845639786, 758395440, 808268080, 808473649, 976236602,
      808333360, 926365497, 808463156, 2150641722, 0, 0, 0, 344, 0])
     [56, 57, 58, 59, 60, 61, 62, 63]
     (1220074361, 3647119657, 30207763, 753029430) =
     (3736410030, 3285346489, 1313856647, 1935244974)"
  by (simp add: md5_K_def md5_s_def u32_def not32_def rotl32_def Let_def)

lemma later_chunk:
  "md5_chunk (1732584193, 4023233417, 2562383102, 271733878)
     [1752183157, 779056239, 845639786, 758395440, 808268080, 808473649, 976236602,
      808333360, 926365497, 808463156, 2150641722, 0, 0, 0, 344, 0] =
     (1174026927, 3013612610, 3876239749, 2206978852)"
  unfolding md5_chunk_def md5_rounds_split fold_append comp_apply
    later_rounds_0 later_rounds_8 later_rounds_16 later_rounds_24 later_rounds_32 later_rounds_40 later_rounds_48 later_rounds_56
  by (simp add: u32_def)

lemma later_blocks:
  "chunks (length [117, 49, 112, 104, 111, 116, 111, 46, 106, 112, 103, 50, 48, 50, 52, 45, 48, 49, 45,
      48, 49, 84, 48, 48, 58, 48, 48, 58, 48, 48, 46, 48, 57, 55, 55, 55, 52, 43, 48, 48, 58,
      48, 48, 128, 0, 0, 0, 0, 0, 0, 0, 0, 0, 0, 0, 0, 88, 1, 0, 0, 0, 0, 0, 0] div 64) 64
     [117, 49, 112, 104, 111, 116, 111, 46, 106, 112, 103, 50, 48, 50, 52, 45, 48, 49, 45,
      48, 49, 84, 48, 48, 58, 48, 48, 58, 48, 48, 46, 48, 57, 55, 55, 55, 52, 43, 48, 48, 58,
      48, 48, 128, 0, 0, 0, 0, 0, 0, 0, 0, 0, 0, 0, 0, 88, 1, 0, 0, 0, 0, 0, 0] =
     [[117, 49, 112, 104, 111, 116, 111, 46, 106, 112, 103, 50, 48, 50, 52, 45, 48, 49, 45,
      48, 49, 84, 48, 48, 58, 48, 48, 58, 48, 48, 46, 48, 57, 55, 55, 55, 52, 43, 48, 48, 58,
      48, 48, 128, 0, 0, 0, 0, 0, 0, 0, 0, 0, 0, 0, 0, 88, 1, 0, 0, 0, 0, 0, 0]]"
  by simp

lemma later_digest:
  "md5_hexdigest ''u1photo.jpg2024-01-01T00:00:00.097774+00:00'' =
     ''af3afa454214a0b385b90ae724d38b83''"
  unfolding md5_hexdigest_def md5_digest_def later_bytes later_padded Let_def later_blocks
    List.fold.simps comp_apply id_apply later_words later_chunk prod.case
  by (simp add: le_bytes_numeral hexdigest_def hex_digit_def)


section \<open>Properties of the operations\<close>

lemma log_call_files: "files (log_call c w) = files w"
  by (simp add: log_call_def)

lemma create_signed_url_files: "files (snd (create_signed_url e w f n u operation)) = files w"
  by (simp add: create_signed_url_def Let_def log_call_files split: sum.splits)

lemma create_signed_url_put:
  assumes "create_signed_url e w f n u ''put_object'' = (Some url, w1)"
  shows "\<exists>content_type. presigned_url e ''put_object'' (s3_object_key u f n) (Some content_type) 3600
           = Inr url"
  using assms by (auto simp add: create_signed_url_def Let_def split: sum.splits)

lemma lookup_put:
  "lookup (it # filter (\<lambda>x. \<not> has_key (item_file_id it) (item_user_id it) x) tbl) f u =
     (if has_key f u it then Some it else lookup tbl f u)"
proof -
  have "find (has_key f u) (filter (\<lambda>x. \<not> has_key (item_file_id it) (item_user_id it) x) tbl)
      = find (has_key f u) tbl" if "\<not> has_key f u it"
    using that by (induction tbl) (auto simp add: has_key_def)
  then show ?thesis by (simp add: lookup_def)
qed

lemma put_item_result:
  "put_item e w it = (r, w') \<Longrightarrow>
     (case r of
        Inl x \<Rightarrow> put_fault e = Some x \<and> files w' = files w
      | Inr u \<Rightarrow> put_fault e = None \<and>
          files w' = it # filter (\<lambda>x. \<not> has_key (item_file_id it) (item_user_id it) x) (files w))"
  by (auto simp add: put_item_def Let_def log_call_def split: option.splits)

lemma store_file_metadata_result:
  assumes "store_file_metadata e w f u n fi md = (ok, w')"
  shows "(ok \<longrightarrow> put_fault e = None \<and>
            (\<exists>it. files w' = it # filter (\<lambda>x. \<not> has_key f u x) (files w) \<and>
               item_file_id it = f \<and> item_user_id it = u \<and>
               item_status it = ''uploading'' \<and> item_filename it = n \<and> item_version it = 1 \<and>
               item_upload_date it = clock e 1))
       \<and> (\<not> ok \<longrightarrow> files w' = files w)"
  using assms
  by (auto simp add: store_file_metadata_def Let_def split: sum.splits prod.splits
      dest!: put_item_result)

lemma create_signed_url_files':
  "create_signed_url e w f n u operation = (r, w1) \<Longrightarrow> files w1 = files w"
  using create_signed_url_files [of e w f n u operation] by simp

lemma get_upload_url_cases:
  assumes "handle_get_upload_url e w body user_id = (outcome, w')"
  shows "(files w' = files w \<and> (\<forall>r. outcome = Inr r \<longrightarrow> statusCode r \<noteq> 200))
    \<or> (\<exists>filename content_type url it.
          presigned_url e ''put_object''
            (s3_object_key user_id
               (generate_file_id user_id filename (clock e 0)) filename)
            (Some content_type) 3600 = Inr url \<and> url \<noteq> [] \<and> put_fault e = None \<and>
          files w' = it # filter (\<lambda>x. \<not> has_key
             (generate_file_id user_id filename (clock e 0)) user_id x) (files w) \<and>
          item_file_id it = generate_file_id user_id filename (clock e 0) \<and>
          item_user_id it = user_id \<and>
          item_status it = ''uploading'' \<and> item_filename it = filename \<and> item_version it = 1 \<and>
          item_upload_date it = clock e 1 \<and>
          outcome = Inr (create_response 200
                    (JObj [(''upload_url'', JStr url),
                           (''file_id'', JStr (generate_file_id user_id filename
                                                 (clock e 0))),
                           (''expires_in'', JInt 3600)])))"
proof (cases "\<exists>r. outcome = Inr r \<and> statusCode r = 200")
  case False
  have "files w' = files w"
    using assms False
    by (auto simp add: handle_get_upload_url_def Let_def create_response_status
        split: sum.splits if_splits json.splits prod.splits option.splits bool.splits
        dest!: create_signed_url_files' store_file_metadata_result)
  with False show ?thesis by auto
next
  case True
  then obtain r where r: "outcome = Inr r" "statusCode r = 200" by blast
  from assms r obtain file_info metadata filename url w1 where
      c: "create_signed_url e w (generate_file_id user_id filename (clock e 0))
            filename user_id ''put_object'' = (Some url, w1)" "url \<noteq> []"
      and s: "store_file_metadata e w1 (generate_file_id user_id filename (clock e 0))
            user_id filename file_info metadata = (True, w')"
      and o: "outcome = Inr (create_response 200
                    (JObj [(''upload_url'', JStr url),
                           (''file_id'', JStr (generate_file_id user_id filename
                                                 (clock e 0))),
                           (''expires_in'', JInt 3600)]))"
    by (auto simp add: handle_get_upload_url_def Let_def create_response_status
        split: sum.splits if_splits json.splits prod.splits option.splits bool.splits)
  from create_signed_url_put [OF c(1)] obtain content_type where
    p: "presigned_url e ''put_object''
            (s3_object_key user_id
               (generate_file_id user_id filename (clock e 0)) filename)
            (Some content_type) 3600 = Inr url" by blast
  have f1: "files w1 = files w" using c(1) by (rule create_signed_url_files')
  from store_file_metadata_result [OF s] f1 obtain it where
    "put_fault e = None"
    "files w' = it # filter (\<lambda>x. \<not> has_key
             (generate_file_id user_id filename (clock e 0)) user_id x) (files w)"
    "item_file_id it = generate_file_id user_id filename (clock e 0)"
    "item_user_id it = user_id"
    "item_status it = ''uploading''" "item_filename it = filename" "item_version it = 1"
    "item_upload_date it = clock e 1"
    by auto
  with p c(2) o show ?thesis by blast
qed

lemma example_file_id:
  "generate_file_id ''u1'' ''photo.jpg'' ''2024-01-01T00:00:00.081673+00:00''
     = ''u1_af3afa45''"
  by (simp add: generate_file_id_def first_digest later_digest)

lemma photo_extension: "lower (snd (splitext ''photo.jpg'')) = ''.jpg''"
  by code_simp

lemma jpg_category: "category_of ''.jpg'' = Some ''image''"
  by (simp add: category_of_def ALLOWED_EXTENSIONS_def)

lemma upload_request_valid:
  "validate_file (JObj [(''name'', JStr ''photo.jpg''), (''size'', JInt 1024),
                        (''type'', JStr ''image/jpeg'')]) = Inr []"
  by (simp add: validate_file_union [of _ 1024 "''photo.jpg''"] photo_extension
      ALLOWED_EXTENSIONS_def MAX_FILE_SIZE_def)

lemma example_upload:
  "handle_get_upload_url (example_env\<lparr>clock := c\<rparr>) w upload_request ''u1'' =
     (Inr (create_response 200
        (JObj [(''upload_url'',
                  JStr (''https://s3.example/'' @
                        s3_object_key ''u1'' (generate_file_id ''u1'' ''photo.jpg'' (c 0))
                          ''photo.jpg'')),
               (''file_id'', JStr (generate_file_id ''u1'' ''photo.jpg'' (c 0))),
               (''expires_in'', JInt 3600)])),
      w\<lparr>files := photo_item ''u1'' (generate_file_id ''u1'' ''photo.jpg'' (c 0)) (c 1) (c 2)
                    # filter (\<lambda>x. \<not> has_key (generate_file_id ''u1'' ''photo.jpg'' (c 0))
                                          ''u1'' x) (files w),
        calls := calls w @
               [S3Presign ''put_object''
                  (s3_object_key ''u1'' (generate_file_id ''u1'' ''photo.jpg'' (c 0))
                     ''photo.jpg''),
                DynamoPut (generate_file_id ''u1'' ''photo.jpg'' (c 0)) ''u1'']\<rparr>)"
  by (simp add: handle_get_upload_url_def upload_request_def upload_request_valid
      create_signed_url_def store_file_metadata_def put_item_def log_call_def
      photo_extension jpg_category example_env_def photo_item_def Let_def s3_object_key_def)

lemma example_upload_signer_down:
  "handle_get_upload_url
      (example_env\<lparr>presigned_url := (\<lambda>operation key content_type expires. Inl OtherError)\<rparr>)
      empty_world upload_request ''u1'' =
     (Inr (create_response 500 (JObj [(''error'', JStr ''Failed to generate upload URL'')])),
      \<lparr>files = [],
       calls = [S3Presign ''put_object''
                  (s3_object_key ''u1''
                     (generate_file_id ''u1'' ''photo.jpg''
                        ''2024-01-01T00:00:00.081673+00:00'') ''photo.jpg'')]\<rparr>)"
  by (simp add: handle_get_upload_url_def upload_request_def upload_request_valid
      create_signed_url_def log_call_def empty_world_def
      photo_extension jpg_category example_env_def Let_def)

lemma example_upload_table_down:
  "handle_get_upload_url
      (example_env\<lparr>put_fault := Some (ClientError ''InternalServerError'')\<rparr>)
      empty_world upload_request ''u1'' =
     (Inr (create_response 500 (JObj [(''error'', JStr ''Failed to store file metadata'')])),
      \<lparr>files = [],
       calls = [S3Presign ''put_object''
                  (s3_object_key ''u1''
                     (generate_file_id ''u1'' ''photo.jpg''
                        ''2024-01-01T00:00:00.081673+00:00'') ''photo.jpg''),
                DynamoPut (generate_file_id ''u1'' ''photo.jpg''
                        ''2024-01-01T00:00:00.081673+00:00'') ''u1'']\<rparr>)"
  by (simp add: handle_get_upload_url_def upload_request_def upload_request_valid
      create_signed_url_def store_file_metadata_def put_item_def log_call_def empty_world_def
      photo_extension jpg_category example_env_def Let_def)

lemma lookup_Some_key:
  "lookup tbl fid uid = Some it \<Longrightarrow> item_file_id it = fid \<and> item_user_id it = uid"
  by (auto simp add: lookup_def has_key_def find_Some_iff)

lemma lookup_None_other_owner:
  "(\<forall>it\<in>set tbl. item_file_id it = fid \<longrightarrow> item_user_id it \<noteq> uid) \<Longrightarrow> lookup tbl fid uid = None"
  by (auto simp add: lookup_def has_key_def find_None_iff)

lemma get_item_result:
  "get_item e w file_id user_id = (r, w') \<Longrightarrow>
     files w' = files w \<and>
     (\<forall>found. r = Inr found \<longrightarrow>
        get_fault e = None \<and> (\<exists>fid. file_id = JStr fid \<and> found = lookup (files w) fid user_id))
     \<and> (get_fault e = None \<longrightarrow> (\<forall>fid. file_id = JStr fid \<longrightarrow> r = Inr (lookup (files w) fid user_id)))"
  by (auto simp add: get_item_def Let_def log_call_def split: option.splits json.splits)

lemma create_signed_url_get:
  assumes "create_signed_url e w f n u ''get_object'' = (Some url, w1)"
  shows "presigned_url e ''get_object'' (s3_object_key u f n) None 3600 = Inr url"
  using assms by (auto simp add: create_signed_url_def Let_def split: sum.splits)

lemma get_download_url_files:
  assumes "handle_get_download_url e w body user_id = (outcome, w')"
  shows "files w' = files w"
  using assms
  by (auto simp add: handle_get_download_url_def Let_def
      split: sum.splits if_splits prod.splits option.splits
      dest!: get_item_result create_signed_url_files')

lemma dict_get_Inr_iff: "(\<exists>v. dict_get d k dflt = Inr v) \<longleftrightarrow> (\<exists>kvs. d = JObj kvs)"
  by (cases d) auto

lemma store_file_metadata_ok_iff:
  assumes "store_file_metadata e w f u n fi md = (ok, w')"
  shows "ok \<longleftrightarrow> put_fault e = None \<and> (\<exists>kvs. fi = JObj kvs) \<and> (\<exists>kvs. md = JObj kvs)"
  using assms
  by (cases fi; cases md)
     (auto simp add: store_file_metadata_def put_item_def Let_def split: option.splits)

lemma example_env_clock:
  "example_env\<lparr>clock := (\<lambda>k. ''2024-01-01T00:00:00.081673+00:00'')\<rparr> = example_env"
  by (simp add: example_env_def)

lemma later_file_id:
  "generate_file_id ''u1'' ''photo.jpg'' ''2024-01-01T00:00:00.097774+00:00''
     = ''u1_af3afa45''"
  by (simp add: generate_file_id_def first_digest later_digest)

lemma example_upload_first:
  "handle_get_upload_url example_env w upload_request ''u1'' =
     (Inr (create_response 200
        (JObj [(''upload_url'',
                  JStr (''https://s3.example/'' @ s3_object_key ''u1'' ''u1_af3afa45'' ''photo.jpg'')),
               (''file_id'', JStr ''u1_af3afa45''),
               (''expires_in'', JInt 3600)])),
      w\<lparr>files := photo_item ''u1'' ''u1_af3afa45'' ''2024-01-01T00:00:00.081673+00:00''
                      ''2024-01-01T00:00:00.081673+00:00''
                    # filter (\<lambda>x. \<not> has_key ''u1_af3afa45'' ''u1'' x) (files w),
        calls := calls w @
               [S3Presign ''put_object'' (s3_object_key ''u1'' ''u1_af3afa45'' ''photo.jpg''),
                DynamoPut ''u1_af3afa45'' ''u1'']\<rparr>)"
  using example_upload [of "\<lambda>k. ''2024-01-01T00:00:00.081673+00:00''" w]
  unfolding example_env_clock example_file_id by simp

lemma example_upload_later:
  "handle_get_upload_url later_env w upload_request ''u1'' =
     (Inr (create_response 200
        (JObj [(''upload_url'',
                  JStr (''https://s3.example/'' @ s3_object_key ''u1'' ''u1_af3afa45'' ''photo.jpg'')),
               (''file_id'', JStr ''u1_af3afa45''),
               (''expires_in'', JInt 3600)])),
      w\<lparr>files := photo_item ''u1'' ''u1_af3afa45'' ''2024-01-01T00:00:00.097774+00:00''
                      ''2024-01-01T00:00:00.097774+00:00''
                    # filter (\<lambda>x. \<not> has_key ''u1_af3afa45'' ''u1'' x) (files w),
        calls := calls w @
               [S3Presign ''put_object'' (s3_object_key ''u1'' ''u1_af3afa45'' ''photo.jpg''),
                DynamoPut ''u1_af3afa45'' ''u1'']\<rparr>)"
  using example_upload [of "\<lambda>k. ''2024-01-01T00:00:00.097774+00:00''" w]
  unfolding later_env_def [symmetric] later_file_id by simp

lemma lookup_photo_head:
  "lookup (photo_item u f a b # rest) f u = Some (photo_item u f a b)"
  by (simp add: lookup_def has_key_def photo_item_def)

text \<open>
  Claim C4. In \<open>handle_get_upload_url\<close> the URL is issued before the record is written. If
  the signer issues no URL (it raises, or answers with an empty URL), the operation does
  not answer 200 and the table is unchanged: no record is created. If the table refuses
  the write, the operation does not answer 200 either (and the table is unchanged). An
  answer 200 means both happened: the signer issued the non-empty URL of the answer, and
  the table holds a record in status \<^verbatim>\<open>uploading\<close> under the file id of the answer.
\<close>

theorem get_upload_url_all_or_nothing:
  assumes "handle_get_upload_url e w body user_id = (outcome, w')"
  shows "((\<forall>key content_type url.
             presigned_url e ''put_object'' key content_type 3600 = Inr url \<longrightarrow> url = []) \<longrightarrow>
            files w' = files w \<and> (\<forall>r. outcome = Inr r \<longrightarrow> statusCode r \<noteq> 200))
    \<and> (put_fault e \<noteq> None \<longrightarrow>
            files w' = files w \<and> (\<forall>r. outcome = Inr r \<longrightarrow> statusCode r \<noteq> 200))
    \<and> (\<forall>r. outcome = Inr r \<and> statusCode r = 200 \<longrightarrow>
          (\<exists>filename content_type url it.
              url \<noteq> [] \<and>
              presigned_url e ''put_object''
                (s3_object_key user_id
                   (generate_file_id user_id filename (clock e 0)) filename)
                (Some content_type) 3600 = Inr url \<and>
              lookup (files w')
                (generate_file_id user_id filename (clock e 0)) user_id = Some it \<and>
              item_status it = ''uploading'' \<and> item_filename it = filename \<and>
              r = create_response 200
                    (JObj [(''upload_url'', JStr url),
                           (''file_id'', JStr (generate_file_id user_id filename
                                                 (clock e 0))),
                           (''expires_in'', JInt 3600)])))"
proof -
  from get_upload_url_cases [OF assms] show ?thesis
  proof
    assume "files w' = files w \<and> (\<forall>r. outcome = Inr r \<longrightarrow> statusCode r \<noteq> 200)"
    then show ?thesis by blast
  next
    assume "\<exists>filename content_type url it.
          presigned_url e ''put_object''
            (s3_object_key user_id
               (generate_file_id user_id filename (clock e 0)) filename)
            (Some content_type) 3600 = Inr url \<and> url \<noteq> [] \<and> put_fault e = None \<and>
          files w' = it # filter (\<lambda>x. \<not> has_key
             (generate_file_id user_id filename (clock e 0)) user_id x) (files w) \<and>
          item_file_id it = generate_file_id user_id filename (clock e 0) \<and>
          item_user_id it = user_id \<and>
          item_status it = ''uploading'' \<and> item_filename it = filename \<and> item_version it = 1 \<and>
          item_upload_date it = clock e 1 \<and>
          outcome = Inr (create_response 200
                    (JObj [(''upload_url'', JStr url),
                           (''file_id'', JStr (generate_file_id user_id filename
                                                 (clock e 0))),
                           (''expires_in'', JInt 3600)]))"
    then obtain filename content_type url it where
      a: "presigned_url e ''put_object''
            (s3_object_key user_id
               (generate_file_id user_id filename (clock e 0)) filename)
            (Some content_type) 3600 = Inr url" "url \<noteq> []" "put_fault e = None"
      and b: "files w' = it # filter (\<lambda>x. \<not> has_key
             (generate_file_id user_id filename (clock e 0)) user_id x) (files w)"
          "item_file_id it = generate_file_id user_id filename (clock e 0)"
          "item_user_id it = user_id"
          "item_status it = ''uploading''" "item_filename it = filename"
      and o: "outcome = Inr (create_response 200
                    (JObj [(''upload_url'', JStr url),
                           (''file_id'', JStr (generate_file_id user_id filename
                                                 (clock e 0))),
                           (''expires_in'', JInt 3600)]))"
      by blast
    have l: "lookup (files w')
        (generate_file_id user_id filename (clock e 0)) user_id = Some it"
      using b lookup_put [of it "files w"
          "generate_file_id user_id filename (clock e 0)" user_id]
      by (simp add: has_key_def)
    show ?thesis
    proof (intro conjI impI allI)
      assume "\<forall>key content_type url.
             presigned_url e ''put_object'' key content_type 3600 = Inr url \<longrightarrow> url = []"
      with a show "files w' = files w" by blast
    next
      fix r
      assume "\<forall>key content_type url.
             presigned_url e ''put_object'' key content_type 3600 = Inr url \<longrightarrow> url = []"
        and "outcome = Inr r"
      with a show "statusCode r \<noteq> 200" by blast
    next
      assume "put_fault e \<noteq> None"
      with a show "files w' = files w" by blast
    next
      fix r
      assume "put_fault e \<noteq> None" and "outcome = Inr r"
      with a show "statusCode r \<noteq> 200" by blast
    next
      fix r
      assume "outcome = Inr r \<and> statusCode r = 200"
      with a b l o show "\<exists>filename content_type url it.
              url \<noteq> [] \<and>
              presigned_url e ''put_object''
                (s3_object_key user_id
                   (generate_file_id user_id filename (clock e 0)) filename)
                (Some content_type) 3600 = Inr url \<and>
              lookup (files w')
                (generate_file_id user_id filename (clock e 0)) user_id = Some it \<and>
              item_status it = ''uploading'' \<and> item_filename it = filename \<and>
              r = create_response 200
                    (JObj [(''upload_url'', JStr url),
                           (''file_id'', JStr (generate_file_id user_id filename
                                                 (clock e 0))),
                           (''expires_in'', JInt 3600)])"
        by blast
    qed
  qed
qed

theorem get_upload_url_all_or_nothing_witness:
  "fst (handle_get_upload_url
      (example_env\<lparr>presigned_url := (\<lambda>operation key content_type expires. Inl OtherError)\<rparr>)
      empty_world upload_request ''u1'')
     = Inr (create_response 500 (JObj [(''error'', JStr ''Failed to generate upload URL'')]))
   \<and> files (snd (handle_get_upload_url
      (example_env\<lparr>presigned_url := (\<lambda>operation key content_type expires. Inl OtherError)\<rparr>)
      empty_world upload_request ''u1'')) = files empty_world
   \<and> fst (handle_get_upload_url
      (example_env\<lparr>put_fault := Some (ClientError ''InternalServerError'')\<rparr>)
      empty_world upload_request ''u1'')
     = Inr (create_response 500 (JObj [(''error'', JStr ''Failed to store file metadata'')]))
   \<and> files (snd (handle_get_upload_url
      (example_env\<lparr>put_fault := Some (ClientError ''InternalServerError'')\<rparr>)
      empty_world upload_request ''u1'')) = files empty_world
   \<and> fst (handle_get_upload_url example_env empty_world upload_request ''u1'')
        = Inr (create_response 200
                 (JObj [(''upload_url'', JStr ''https://s3.example/uploads/u1/u1_af3afa45/photo.jpg''),
                        (''file_id'', JStr ''u1_af3afa45''),
                        (''expires_in'', JInt 3600)]))
   \<and> map_option item_status
        (lookup (files (snd (handle_get_upload_url example_env empty_world upload_request ''u1'')))
           ''u1_af3afa45'' ''u1'') = Some ''uploading''"
proof -
  let ?down = "example_env\<lparr>presigned_url := (\<lambda>operation key content_type expires. Inl OtherError)\<rparr>"
  let ?fault = "example_env\<lparr>put_fault := Some (ClientError ''InternalServerError'')\<rparr>"
  have a: "files (snd (handle_get_upload_url ?down empty_world upload_request ''u1''))
      = files empty_world"
    using get_upload_url_all_or_nothing [of ?down empty_world upload_request "''u1''"
        "fst (handle_get_upload_url ?down empty_world upload_request ''u1'')"
        "snd (handle_get_upload_url ?down empty_world upload_request ''u1'')"]
    by simp
  have b: "files (snd (handle_get_upload_url ?fault empty_world upload_request ''u1''))
      = files empty_world"
    using get_upload_url_all_or_nothing [of ?fault empty_world upload_request "''u1''"
        "fst (handle_get_upload_url ?fault empty_world upload_request ''u1'')"
        "snd (handle_get_upload_url ?fault empty_world upload_request ''u1'')"]
    by simp
  have env: "example_env\<lparr>clock := (\<lambda>k. ''2024-01-01T00:00:00.081673+00:00'')\<rparr> = example_env"
    by (simp add: example_env_def)
  have u: "handle_get_upload_url example_env empty_world upload_request ''u1'' =
     (Inr (create_response 200
        (JObj [(''upload_url'',
                  JStr (''https://s3.example/'' @ s3_object_key ''u1'' ''u1_af3afa45'' ''photo.jpg'')),
               (''file_id'', JStr ''u1_af3afa45''),
               (''expires_in'', JInt 3600)])),
      empty_world\<lparr>files := photo_item ''u1'' ''u1_af3afa45'' ''2024-01-01T00:00:00.081673+00:00''
                           ''2024-01-01T00:00:00.081673+00:00''
                    # filter (\<lambda>x. \<not> has_key ''u1_af3afa45'' ''u1'' x) (files empty_world),
        calls := calls empty_world @
               [S3Presign ''put_object'' (s3_object_key ''u1'' ''u1_af3afa45'' ''photo.jpg''),
                DynamoPut ''u1_af3afa45'' ''u1'']\<rparr>)"
    using example_upload [of "\<lambda>k. ''2024-01-01T00:00:00.081673+00:00''" empty_world]
    unfolding env example_file_id by simp
  have c: "fst (handle_get_upload_url example_env empty_world upload_request ''u1'')
        = Inr (create_response 200
                 (JObj [(''upload_url'', JStr ''https://s3.example/uploads/u1/u1_af3afa45/photo.jpg''),
                        (''file_id'', JStr ''u1_af3afa45''),
                        (''expires_in'', JInt 3600)]))
   \<and> map_option item_status
        (lookup (files (snd (handle_get_upload_url example_env empty_world upload_request ''u1'')))
           ''u1_af3afa45'' ''u1'') = Some ''uploading''"
    unfolding u
    by (simp add: lookup_def has_key_def photo_item_def s3_object_key_def)
  from a b c example_upload_signer_down example_upload_table_down show ?thesis by simp
qed

text \<open>
  Claim C3. A \<^verbatim>\<open>get_item\<close> under \<open>owner_a\<close> reads the table at the key made of the file id and
  \<open>owner_a\<close>, so the record it finds has \<open>owner_a\<close> as its \<open>user_id\<close>. \<open>handle_get_download_url\<close>
  changes no record; an answer 200 carries the record and the download URL of a file of
  \<open>owner_a\<close>; and when every record with the requested file id belongs to another owner
  (or there is none), the answer is the 404 "File not found", the same in both cases.
\<close>

theorem get_download_url_owner:
  assumes "handle_get_download_url e w body owner_a = (outcome, w')"
  shows "files w' = files w
    \<and> (\<forall>fid it. lookup (files w) fid owner_a = Some it \<longrightarrow>
          item_user_id it = owner_a \<and> item_file_id it = fid)
    \<and> (\<forall>r. outcome = Inr r \<and> statusCode r = 200 \<longrightarrow>
          (\<exists>fid it url.
              dict_get body ''file_id'' JNull = Inr (JStr fid) \<and>
              lookup (files w) fid owner_a = Some it \<and> item_user_id it = owner_a \<and>
              presigned_url e ''get_object'' (s3_object_key owner_a fid (item_filename it)) None 3600
                = Inr url \<and>
              r = create_response 200
                    (JObj [(''download_url'', JStr url),
                           (''file_info'',
                              JObj [(''filename'', JStr (item_filename it)),
                                    (''file_type'', JStr (item_file_type it)),
                                    (''file_size'', item_file_size it),
                                    (''title'', item_title it),
                                    (''description'', item_description it),
                                    (''tags'', item_tags it)]),
                           (''expires_in'', JInt 3600)])))
    \<and> (\<forall>fid. dict_get body ''file_id'' JNull = Inr (JStr fid) \<and> fid \<noteq> [] \<and> get_fault e = None \<and>
            (\<forall>it\<in>set (files w). item_file_id it = fid \<longrightarrow> item_user_id it \<noteq> owner_a) \<longrightarrow>
          outcome = Inr (create_response 404 (JObj [(''error'', JStr ''File not found'')])))"
proof (intro conjI allI impI)
  show "files w' = files w"
    using assms by (rule get_download_url_files)
next
  fix fid it
  assume "lookup (files w) fid owner_a = Some it"
  then show "item_user_id it = owner_a" and "item_file_id it = fid"
    using lookup_Some_key by blast+
next
  fix r
  assume r: "outcome = Inr r \<and> statusCode r = 200"
  with assms obtain file_id file_item w1 url w2 where
      g: "dict_get body ''file_id'' JNull = Inr file_id"
         "get_item e w file_id owner_a = (Inr (Some file_item), w1)"
      and c: "create_signed_url e w1 (key_text file_id) (item_filename file_item) owner_a
             ''get_object'' = (Some url, w2)"
      and o: "r = create_response 200
                    (JObj [(''download_url'', JStr url),
                           (''file_info'',
                              JObj [(''filename'', JStr (item_filename file_item)),
                                    (''file_type'', JStr (item_file_type file_item)),
                                    (''file_size'', item_file_size file_item),
                                    (''title'', item_title file_item),
                                    (''description'', item_description file_item),
                                    (''tags'', item_tags file_item)]),
                           (''expires_in'', JInt 3600)])"
    by (auto simp add: handle_get_download_url_def Let_def create_response_status
        split: sum.splits if_splits prod.splits option.splits)
  from get_item_result [OF g(2)] obtain fid where
    f: "file_id = JStr fid" "lookup (files w) fid owner_a = Some file_item" by auto
  from create_signed_url_get [OF c] f
  have "presigned_url e ''get_object'' (s3_object_key owner_a fid (item_filename file_item)) None 3600
      = Inr url" by simp
  with g f o lookup_Some_key [OF f(2)]
  show "\<exists>fid it url.
              dict_get body ''file_id'' JNull = Inr (JStr fid) \<and>
              lookup (files w) fid owner_a = Some it \<and> item_user_id it = owner_a \<and>
              presigned_url e ''get_object'' (s3_object_key owner_a fid (item_filename it)) None 3600
                = Inr url \<and>
              r = create_response 200
                    (JObj [(''download_url'', JStr url),
                           (''file_info'',
                              JObj [(''filename'', JStr (item_filename it)),
                                    (''file_type'', JStr (item_file_type it)),
                                    (''file_size'', item_file_size it),
                                    (''title'', item_title it),
                                    (''description'', item_description it),
                                    (''tags'', item_tags it)]),
                           (''expires_in'', JInt 3600)])"
    by blast
next
  fix fid
  assume a: "dict_get body ''file_id'' JNull = Inr (JStr fid) \<and> fid \<noteq> [] \<and> get_fault e = None \<and>
            (\<forall>it\<in>set (files w). item_file_id it = fid \<longrightarrow> item_user_id it \<noteq> owner_a)"
  then have "lookup (files w) fid owner_a = None"
    using lookup_None_other_owner by blast
  with a assms show "outcome = Inr (create_response 404 (JObj [(''error'', JStr ''File not found'')]))"
    by (auto simp add: handle_get_download_url_def get_item_def Let_def log_call_def)
qed

theorem get_download_url_owner_witness:
  "files (snd (handle_get_download_url example_env two_owner_world
       (JObj [(''operation'', JStr ''get_download_url''), (''file_id'', JStr ''u2_0badc0de'')])
       ''u1'')) = files two_owner_world
   \<and> fst (handle_get_download_url example_env two_owner_world
       (JObj [(''operation'', JStr ''get_download_url''), (''file_id'', JStr ''u2_0badc0de'')])
       ''u1'') = Inr (create_response 404 (JObj [(''error'', JStr ''File not found'')]))
   \<and> lookup (files two_owner_world) ''u2_0badc0de'' ''u2'' \<noteq> None"
proof -
  let ?body = "JObj [(''operation'', JStr ''get_download_url''), (''file_id'', JStr ''u2_0badc0de'')]"
  let ?out = "handle_get_download_url example_env two_owner_world ?body ''u1''"
  have t: "handle_get_download_url example_env two_owner_world ?body ''u1'' = (fst ?out, snd ?out)"
    by simp
  have g: "get_fault example_env = None" by (simp add: example_env_def)
  have o: "\<forall>it\<in>set (files two_owner_world). item_file_id it = ''u2_0badc0de'' \<longrightarrow> item_user_id it \<noteq> ''u1''"
    by (simp add: two_owner_world_def photo_item_def)
  from get_download_url_owner [OF t] g o
  have "files (snd ?out) = files two_owner_world"
    and "fst ?out = Inr (create_response 404 (JObj [(''error'', JStr ''File not found'')]))"
    by simp_all
  moreover have "lookup (files two_owner_world) ''u2_0badc0de'' ''u2'' \<noteq> None"
    by (simp add: two_owner_world_def photo_item_def lookup_def has_key_def)
  ultimately show ?thesis by simp
qed

lemma generate_file_id_owner_prefix:
  "generate_file_id user_id filename t
     = user_id @ ''_'' @ take 8 (md5_hexdigest (user_id @ filename @ t))
   \<and> prefix user_id (generate_file_id user_id filename t)"
  by (simp add: generate_file_id_def Let_def)

text \<open>
  Claim C5. \<open>generate_file_id\<close> is to give different ids at different instants (its
  docstring promises a unique file id), and ids that start with the owner id. The second
  part holds. The first does not: only the first eight characters of the digest go into
  the id. For the owner \<open>u1\<close> and the name \<open>photo.jpg\<close> the two clock readings below, sixteen
  milliseconds apart, have MD5 digests that both start with \<open>af3afa45\<close>, and
  \<open>generate_file_id\<close> returns \<open>u1_af3afa45\<close> at both.
\<close>

theorem generate_file_id_same_id:
  "''2024-01-01T00:00:00.081673+00:00'' \<noteq> ''2024-01-01T00:00:00.097774+00:00''
   \<and> generate_file_id ''u1'' ''photo.jpg'' ''2024-01-01T00:00:00.081673+00:00'' = ''u1_af3afa45''
   \<and> generate_file_id ''u1'' ''photo.jpg'' ''2024-01-01T00:00:00.097774+00:00'' = ''u1_af3afa45''"
  by (simp add: generate_file_id_def first_digest later_digest)

text \<open>
  Claim C1, as the code has it. \<open>store_file_metadata\<close> writes with \<^verbatim>\<open>put_item\<close> and no
  condition: it succeeds exactly when \<open>file_info\<close> and \<open>metadata\<close> are dictionaries and the
  table raises no fault, whether or not a record is already stored under the key. After
  a success the record under the key \<open>(file_id, user_id)\<close> is the new one, in status
  \<^verbatim>\<open>uploading\<close>, and the records under all other keys are as before; after a failure the
  table is unchanged. The counterexample is a second request-upload of the same owner and
  name whose file id collides with the first: it answers 200 and replaces the record.
\<close>

theorem store_file_metadata_replaces:
  assumes "store_file_metadata e w file_id user_id filename file_info metadata = (ok, w')"
  shows "(ok \<longleftrightarrow> put_fault e = None \<and> (\<exists>kvs. file_info = JObj kvs) \<and> (\<exists>kvs. metadata = JObj kvs))
    \<and> (ok \<longrightarrow>
          (\<exists>it. lookup (files w') file_id user_id = Some it \<and> item_filename it = filename \<and>
                item_status it = ''uploading'' \<and> item_version it = 1 \<and>
                item_upload_date it = clock e 1) \<and>
          (\<forall>f u. (f, u) \<noteq> (file_id, user_id) \<longrightarrow> lookup (files w') f u = lookup (files w) f u))
    \<and> (\<not> ok \<longrightarrow> files w' = files w)"
proof (intro conjI impI)
  show "ok \<longleftrightarrow> put_fault e = None \<and> (\<exists>kvs. file_info = JObj kvs) \<and> (\<exists>kvs. metadata = JObj kvs)"
    using assms by (rule store_file_metadata_ok_iff)
next
  assume ok
  with store_file_metadata_result [OF assms] obtain it where
    it: "files w' = it # filter (\<lambda>x. \<not> has_key file_id user_id x) (files w)"
        "item_file_id it = file_id" "item_user_id it = user_id"
        "item_status it = ''uploading''" "item_filename it = filename" "item_version it = 1"
        "item_upload_date it = clock e 1"
    by auto
  have l: "lookup (files w') f u = (if has_key f u it then Some it else lookup (files w) f u)" for f u
    using lookup_put [of it "files w" f u] it by simp
  show "\<exists>it. lookup (files w') file_id user_id = Some it \<and> item_filename it = filename \<and>
                item_status it = ''uploading'' \<and> item_version it = 1 \<and>
                item_upload_date it = clock e 1"
    using l [of file_id user_id] it by (simp add: has_key_def)
  show "\<forall>f u. (f, u) \<noteq> (file_id, user_id) \<longrightarrow> lookup (files w') f u = lookup (files w) f u"
    using l it by (auto simp add: has_key_def)
next
  assume "\<not> ok"
  with store_file_metadata_result [OF assms] show "files w' = files w" by simp
qed

theorem store_file_metadata_replaces_witness:
  "lookup (files two_owner_world) ''u1_af3afa45'' ''u1'' \<noteq> None
   \<and> fst (store_file_metadata example_env two_owner_world ''u1_af3afa45'' ''u1'' ''photo.jpg''
           photo_info photo_metadata)
   \<and> lookup (files (snd (store_file_metadata example_env two_owner_world ''u1_af3afa45'' ''u1''
           ''photo.jpg'' photo_info photo_metadata))) ''u2_0badc0de'' ''u2''
       = lookup (files two_owner_world) ''u2_0badc0de'' ''u2''"
proof -
  let ?out = "store_file_metadata example_env two_owner_world ''u1_af3afa45'' ''u1'' ''photo.jpg''
           photo_info photo_metadata"
  have t: "store_file_metadata example_env two_owner_world ''u1_af3afa45'' ''u1'' ''photo.jpg''
           photo_info photo_metadata = (fst ?out, snd ?out)" by simp
  have ok: "fst ?out"
    using store_file_metadata_replaces [OF t]
    by (simp add: example_env_def photo_info_def photo_metadata_def)
  have "lookup (files (snd ?out)) ''u2_0badc0de'' ''u2''
       = lookup (files two_owner_world) ''u2_0badc0de'' ''u2''"
    using store_file_metadata_replaces [OF t] ok by simp
  moreover have "lookup (files two_owner_world) ''u1_af3afa45'' ''u1'' \<noteq> None"
    by (simp add: two_owner_world_def photo_item_def lookup_def has_key_def)
  ultimately show ?thesis using ok by simp
qed

theorem second_create_counterexample:
  "lookup (files (snd (handle_get_upload_url example_env empty_world upload_request ''u1'')))
       ''u1_af3afa45'' ''u1''
     = Some (photo_item ''u1'' ''u1_af3afa45'' ''2024-01-01T00:00:00.081673+00:00''
               ''2024-01-01T00:00:00.081673+00:00'')
   \<and> fst (handle_get_upload_url later_env
           (snd (handle_get_upload_url example_env empty_world upload_request ''u1''))
           upload_request ''u1'')
     = Inr (create_response 200
        (JObj [(''upload_url'', JStr ''https://s3.example/uploads/u1/u1_af3afa45/photo.jpg''),
               (''file_id'', JStr ''u1_af3afa45''),
               (''expires_in'', JInt 3600)]))
   \<and> lookup (files (snd (handle_get_upload_url later_env
           (snd (handle_get_upload_url example_env empty_world upload_request ''u1''))
           upload_request ''u1''))) ''u1_af3afa45'' ''u1''
     = Some (photo_item ''u1'' ''u1_af3afa45'' ''2024-01-01T00:00:00.097774+00:00''
               ''2024-01-01T00:00:00.097774+00:00'')
   \<and> photo_item ''u1'' ''u1_af3afa45'' ''2024-01-01T00:00:00.097774+00:00''
               ''2024-01-01T00:00:00.097774+00:00''
     \<noteq> photo_item ''u1'' ''u1_af3afa45'' ''2024-01-01T00:00:00.081673+00:00''
               ''2024-01-01T00:00:00.081673+00:00''"
  unfolding example_upload_first example_upload_later snd_conv fst_conv
  by (simp add: lookup_photo_head s3_object_key_def) (simp add: photo_item_def)

section \<open>The life cycle of a record\<close>

lemma lookup_map_update:
  assumes "\<And>x. item_file_id (g x) = item_file_id x \<and> item_user_id (g x) = item_user_id x"
  shows "lookup (map (\<lambda>x. if has_key fid uid x then g x else x) tbl) f u
       = map_option (\<lambda>x. if has_key fid uid x then g x else x) (lookup tbl f u)"
  using assms by (induction tbl) (auto simp add: lookup_def has_key_def)

lemma complete_upload_cases:
  assumes "handle_complete_upload e w body user_id = (outcome, w')"
  shows "(files w' = files w \<and> (\<forall>r. outcome = Inr r \<longrightarrow> statusCode r \<noteq> 200))
    \<or> (\<exists>fid. dict_get body ''file_id'' JNull = Inr (JStr fid) \<and>
          lookup (files w) fid user_id \<noteq> None \<and>
          files w' = map (\<lambda>x. if has_key fid user_id x
                              then x\<lparr>item_status := ''completed'', item_last_modified := clock e 0\<rparr>
                              else x) (files w) \<and>
          outcome = Inr (create_response 200
                      (JObj [(''message'', JStr ''Upload completed successfully'')])))"
  using assms
  by (auto simp add: handle_complete_upload_def update_item_def Let_def log_call_def
      create_response_status
      split: sum.splits if_splits prod.splits option.splits json.splits exn.splits)




















lemma complete_upload_other_owner:
  assumes "handle_complete_upload e w body user_id = (outcome, w')" and "u \<noteq> user_id"
  shows "lookup (files w') f u = lookup (files w) f u"
proof -
  from complete_upload_cases [OF assms(1)] show ?thesis
  proof
    assume "files w' = files w \<and> (\<forall>r. outcome = Inr r \<longrightarrow> statusCode r \<noteq> 200)"
    then show ?thesis by simp
  next
    assume "\<exists>fid. dict_get body ''file_id'' JNull = Inr (JStr fid) \<and>
          lookup (files w) fid user_id \<noteq> None \<and>
          files w' = map (\<lambda>x. if has_key fid user_id x
                              then x\<lparr>item_status := ''completed'', item_last_modified := clock e 0\<rparr>
                              else x) (files w) \<and>
          outcome = Inr (create_response 200
                      (JObj [(''message'', JStr ''Upload completed successfully'')]))"
    then obtain fid where
      m: "files w' = map (\<lambda>x. if has_key fid user_id x
                              then x\<lparr>item_status := ''completed'', item_last_modified := clock e 0\<rparr>
                              else x) (files w)" by blast
    have "lookup (files w') f u
          = map_option (\<lambda>x. if has_key fid user_id x
                              then x\<lparr>item_status := ''completed'', item_last_modified := clock e 0\<rparr>
                              else x) (lookup (files w) f u)"
      unfolding m by (rule lookup_map_update) simp
    moreover have "\<not> has_key fid user_id x" if "lookup (files w) f u = Some x" for x
      using lookup_Some_key [OF that] assms(2) by (simp add: has_key_def)
    ultimately show ?thesis by (cases "lookup (files w) f u") auto
  qed
qed






end
